theory Spec2Isabelle
  imports Main "HOL-Library.Char_ord" "HOL-Library.List_Lexorder" "HOL-Library.Sublist"
begin

section \<open>Values of the Python runtime\<close>

text \<open>
  The script \<^verbatim>\<open>csv_to_github_project.py\<close> handles the decoded JSON of the remote
  service with Python's dynamic operations (\<^verbatim>\<open>d.get(k)\<close>, \<^verbatim>\<open>d[k]\<close>, \<^verbatim>\<open>x or y\<close>,
  \<^verbatim>\<open>not x\<close>, \<^verbatim>\<open>k in d\<close>).  The embedding keeps that: a value is a \<open>json\<close>, and each
  operation returns the exception Python raises on a value of the wrong shape.

  A float is its mathematical value (mantissa and binary exponent), an infinity with its
  sign, or not-a-number.  A dictionary is the list of its items; the first item of a key
  is the key's value.

  A string is the list of the bytes of its UTF-8 encoding.  That keeps what the script
  uses of a string: equality, emptiness, the order in which \<^verbatim>\<open>sorted\<close> puts strings
  (UTF-8 keeps the order of the code points), substrings, and the places of an ASCII
  character such as the comma.  The characters of a string are the groups of a leading
  byte and the continuation bytes after it.  The methods \<^verbatim>\<open>lower\<close> and \<^verbatim>\<open>strip\<close> of a
  string follow the Unicode character database of the interpreter; they are not defined
  here but belong to the environment (\<open>str_lower\<close> and \<open>str_strip\<close> below).
\<close>

datatype pyfloat = Finite int int | Infinite bool | NaN

datatype json =
    JNull
  | JBool bool
  | JInt int
  | JFloat pyfloat
  | JStr string
  | JList "json list"
  | JDict "(string \<times> json) list"

datatype runtime_msg =
    GraphQL_HTTP int string
  | GraphQL_errors json
  | Project_not_found int string
  | Repository_not_found string

text \<open>
  Every \<^verbatim>\<open>raise\<close> of the script raises \<^verbatim>\<open>RuntimeError\<close>; \<open>runtime_msg\<close> tells the four
  raise statements apart by their message.  The other exceptions are the ones the
  operations on values, \<^verbatim>\<open>requests.post\<close>, \<^verbatim>\<open>r.json()\<close>, \<^verbatim>\<open>time.sleep\<close> and
  \<^verbatim>\<open>sys.exit\<close> raise.
\<close>

datatype exn =
    RuntimeError runtime_msg
  | KeyError string
  | TypeError
  | AttributeError
  | ValueError
  | OverflowError
  | JSONDecodeError
  | RequestException
  | SystemExit int

fun is_RuntimeError :: "exn \<Rightarrow> bool" where
  "is_RuntimeError (RuntimeError m) = True"
| "is_RuntimeError e = False"

text \<open>\<^verbatim>\<open>except Exception\<close> catches every exception but \<^verbatim>\<open>SystemExit\<close>.\<close>

fun is_Exception :: "exn \<Rightarrow> bool" where
  "is_Exception (SystemExit c) = False"
| "is_Exception e = True"

fun truthy :: "json \<Rightarrow> bool" where
  "truthy JNull = False"
| "truthy (JBool b) = b"
| "truthy (JInt i) = (i \<noteq> 0)"
| "truthy (JFloat (Finite m e)) = (m \<noteq> 0)"
| "truthy (JFloat f) = True"
| "truthy (JStr s) = (s \<noteq> [])"
| "truthy (JList xs) = (xs \<noteq> [])"
| "truthy (JDict kvs) = (kvs \<noteq> [])"

text \<open>\<^verbatim>\<open>x or y\<close>\<close>

definition py_or :: "json \<Rightarrow> json \<Rightarrow> json" where
  "py_or x y = (if truthy x then x else y)"

text \<open>\<^verbatim>\<open>d.get(k)\<close> and \<^verbatim>\<open>d.get(k, dflt)\<close>: only a dictionary has the method.\<close>

fun py_get_default :: "json \<Rightarrow> string \<Rightarrow> json \<Rightarrow> exn + json" where
  "py_get_default (JDict kvs) k dflt = Inr (case map_of kvs k of None \<Rightarrow> dflt | Some v \<Rightarrow> v)"
| "py_get_default d k dflt = Inl AttributeError"

definition py_get :: "json \<Rightarrow> string \<Rightarrow> exn + json" where
  "py_get d k = py_get_default d k JNull"

text \<open>\<^verbatim>\<open>d[k]\<close> for a string \<open>k\<close>: a missing key is a \<^verbatim>\<open>KeyError\<close>, and a value that is
  not a dictionary cannot be indexed by a string.\<close>

fun py_index :: "json \<Rightarrow> string \<Rightarrow> exn + json" where
  "py_index (JDict kvs) k = (case map_of kvs k of None \<Rightarrow> Inl (KeyError k) | Some v \<Rightarrow> Inr v)"
| "py_index d k = Inl TypeError"

text \<open>\<^verbatim>\<open>k in d\<close> for a string \<open>k\<close>: a key of a dictionary, an element of a list, a
  substring of a string; the other values are not containers.\<close>

fun py_in :: "string \<Rightarrow> json \<Rightarrow> exn + bool" where
  "py_in k (JDict kvs) = Inr (k \<in> fst ` set kvs)"
| "py_in k (JList xs) = Inr (JStr k \<in> set xs)"
| "py_in k (JStr s) = Inr (sublist k s)"
| "py_in k d = Inl TypeError"

text \<open>The characters of a string: a continuation byte of UTF-8 is one from 128 to 191,
  and a character is a byte with the continuation bytes that follow it.\<close>

definition is_continuation :: "char \<Rightarrow> bool" where
  "is_continuation c = (128 \<le> (of_char c :: nat) \<and> (of_char c :: nat) < 192)"

function chars :: "string \<Rightarrow> string list" where
  "chars [] = []"
| "chars (c # cs) = (c # takeWhile is_continuation cs) # chars (dropWhile is_continuation cs)"
  by pat_completeness auto
termination
  by (relation "measure length") (simp_all add: length_dropWhile_le less_Suc_eq_le)

text \<open>The sequence a \<^verbatim>\<open>for\<close> loop or a generator runs over: the elements of a list,
  the keys of a dictionary, the characters of a string.\<close>

fun py_iter :: "json \<Rightarrow> exn + json list" where
  "py_iter (JList xs) = Inr xs"
| "py_iter (JDict kvs) = Inr (map (\<lambda>kv. JStr (fst kv)) kvs)"
| "py_iter (JStr s) = Inr (map JStr (chars s))"
| "py_iter d = Inl TypeError"

text \<open>\<^verbatim>\<open>s.lstrip("@")\<close>\<close>

definition lstrip_at :: "string \<Rightarrow> string" where
  "lstrip_at s = dropWhile (\<lambda>c. c = CHR ''@'') s"

text \<open>\<^verbatim>\<open>s.split(",")\<close>: never empty, \<^verbatim>\<open>"".split(",")\<close> is \<^verbatim>\<open>[""]\<close>.\<close>

fun split :: "char \<Rightarrow> string \<Rightarrow> string list" where
  "split sep [] = [[]]"
| "split sep (c # cs) =
     (if c = sep then [] # split sep cs
      else (case split sep cs of [] \<Rightarrow> [[c]] | x # xs \<Rightarrow> (c # x) # xs))"

text \<open>\<^verbatim>\<open>owner, name = repo_full.split("/", 1)\<close>: with no \<^verbatim>\<open>/\<close> the split has one
  element and the unpacking raises \<^verbatim>\<open>ValueError\<close>.\<close>

definition split_owner_name :: "string \<Rightarrow> exn + string \<times> string" where
  "split_owner_name repo_full =
     (if CHR ''/'' \<in> set repo_full
      then Inr (takeWhile (\<lambda>c. c \<noteq> CHR ''/'') repo_full,
                tl (dropWhile (\<lambda>c. c \<noteq> CHR ''/'') repo_full))
      else Inl ValueError)"

section \<open>The remote service and the two output streams\<close>

text \<open>
  The nine GraphQL documents of the script, by what they ask for.  A request is what
  \<^verbatim>\<open>gql\<close> posts: the bearer token, the document and the variables.  A response is what
  the script reads of \<^verbatim>\<open>r\<close>: \<^verbatim>\<open>r.status_code\<close>, \<^verbatim>\<open>r.text\<close> and \<^verbatim>\<open>r.json()\<close>
  (\<open>None\<close> when the body is not JSON and \<^verbatim>\<open>r.json()\<close> raises).
\<close>

datatype document =
    Q_user_project
  | Q_org_project
  | Q_repository
  | Q_labels
  | Q_user
  | M_createIssue
  | M_addProjectV2ItemById
  | M_updateProjectV2ItemFieldValue
  | M_addProjectV2DraftIssue

record request =
  req_token :: string
  req_query :: document
  req_variables :: json

record response =
  status_code :: int
  resp_text :: string
  resp_json :: "json option"

datatype stream = Stdout | Stderr

text \<open>The \<^verbatim>\<open>print\<close> calls of the script, by line, with the values they format.\<close>

datatype message =
    Info_project_found string
  | Warn_labels_missing "string list"
  | Warn_user_missing string
  | Created_issue json json
  | Warn_number_invalid string
  | Warn_no_options
  | Warn_unknown_option string
  | Info_unsupported_type json
  | Missing_token
  | Missing_repo
  | Error_missing_title nat
  | Draft_created json
  | Added_item json
  | Warn_field_failed string "string option" exn

datatype event = Print stream message | Sleep pyfloat

text \<open>
  The state the script acts on: the requests posted so far and what it printed (and
  where it slept, for how many seconds), both in order.
\<close>

record world =
  calls :: "request list"
  printed :: "event list"

text \<open>
  What the script runs on and does not define: \<open>post\<close> is \<^verbatim>\<open>requests.post\<close> against the
  service, which answers a request knowing the requests before it (\<open>None\<close>: no response,
  \<^verbatim>\<open>requests\<close> raises); \<open>py_float\<close> is the builtin \<^verbatim>\<open>float\<close> on a string (\<open>None\<close>:
  \<^verbatim>\<open>ValueError\<close>); \<open>set_order\<close> is the order in which Python iterates a set of strings;
  \<open>str_lower\<close> and \<open>str_strip\<close> are the methods \<^verbatim>\<open>lower()\<close> and \<^verbatim>\<open>strip()\<close> of a
  string, which fold the letters and remove the leading and trailing white space of
  Unicode, outside ASCII too; \<open>time_sleep\<close> is \<^verbatim>\<open>time.sleep\<close> on a float (\<open>None\<close>: it
  returns after the delay; otherwise the exception it raises, which is \<^verbatim>\<open>ValueError\<close>
  for a negative delay and for not-a-number and \<^verbatim>\<open>OverflowError\<close> for a delay the clock
  cannot hold).
\<close>

record env =
  post :: "request list \<Rightarrow> request \<Rightarrow> response option"
  py_float :: "string \<Rightarrow> pyfloat option"
  set_order :: "string set \<Rightarrow> string list"
  str_lower :: "string \<Rightarrow> string"
  str_strip :: "string \<Rightarrow> string"
  time_sleep :: "pyfloat \<Rightarrow> exn option"

type_synonym 'a io = "world \<Rightarrow> (exn + 'a) \<times> world"

definition io_return :: "'a \<Rightarrow> 'a io" where
  "io_return x w = (Inr x, w)"

definition io_raise :: "exn \<Rightarrow> 'a io" where
  "io_raise e w = (Inl e, w)"

definition io_bind :: "'a io \<Rightarrow> ('a \<Rightarrow> 'b io) \<Rightarrow> 'b io" where
  "io_bind m f w = (case m w of (Inl e, w') \<Rightarrow> (Inl e, w') | (Inr x, w') \<Rightarrow> f x w')"

definition io_of :: "exn + 'a \<Rightarrow> 'a io" where
  "io_of r w = (r, w)"

definition res_bind :: "exn + 'a \<Rightarrow> ('a \<Rightarrow> exn + 'b) \<Rightarrow> exn + 'b" where
  "res_bind r f = (case r of Inl e \<Rightarrow> Inl e | Inr x \<Rightarrow> f x)"

definition print :: "stream \<Rightarrow> message \<Rightarrow> unit io" where
  "print s m w = (Inr (), w\<lparr>printed := printed w @ [Print s m]\<rparr>)"

text \<open>\<^verbatim>\<open>x.lower()\<close>: only a string has the method.\<close>

fun py_lower :: "env \<Rightarrow> json \<Rightarrow> exn + string" where
  "py_lower E (JStr s) = Inr (str_lower E s)"
| "py_lower E d = Inl AttributeError"

section \<open>The remote call client\<close>

text \<open>
  \<^verbatim>\<open>gql\<close>, lines 12 to 29: one \<^verbatim>\<open>requests.post\<close>; a status other than 200 raises
  with the status and the text; then \<^verbatim>\<open>"errors" in data\<close> raises with
  \<^verbatim>\<open>data['errors']\<close>; otherwise \<^verbatim>\<open>data["data"]\<close> is returned.
\<close>

definition gql_decode :: "response \<Rightarrow> exn + json" where
  "gql_decode r =
     (if status_code r \<noteq> 200
      then Inl (RuntimeError (GraphQL_HTTP (status_code r) (resp_text r)))
      else (case resp_json r of
              None \<Rightarrow> Inl JSONDecodeError
            | Some data \<Rightarrow>
                res_bind (py_in ''errors'' data) (\<lambda>has_errors.
                  if has_errors
                  then res_bind (py_index data ''errors'') (\<lambda>errs.
                         Inl (RuntimeError (GraphQL_errors errs)))
                  else py_index data ''data'')))"

definition request_of :: "string \<Rightarrow> document \<Rightarrow> json \<Rightarrow> request" where
  "request_of tok q vars = \<lparr>req_token = tok, req_query = q, req_variables = vars\<rparr>"

definition gql :: "env \<Rightarrow> string \<Rightarrow> document \<Rightarrow> json \<Rightarrow> json io" where
  "gql E tok q vars w =
     (case post E (calls w) (request_of tok q vars) of
        None \<Rightarrow> (Inl RequestException, w\<lparr>calls := calls w @ [request_of tok q vars]\<rparr>)
      | Some r \<Rightarrow> (gql_decode r, w\<lparr>calls := calls w @ [request_of tok q vars]\<rparr>))"

text \<open>\<^verbatim>\<open>try: ... except ...:\<close> with the exceptions the clause catches.\<close>

definition io_except :: "(exn \<Rightarrow> bool) \<Rightarrow> 'a io \<Rightarrow> (exn \<Rightarrow> 'a io) \<Rightarrow> 'a io" where
  "io_except catches m handler w =
     (case m w of
        (Inl e, w') \<Rightarrow> if catches e then handler e w' else (Inl e, w')
      | (Inr x, w') \<Rightarrow> (Inr x, w'))"

section \<open>The schema resolver\<close>

text \<open>
  A field of the board as \<^verbatim>\<open>get_project_and_fields\<close> records it: the dictionary with the
  keys \<^verbatim>\<open>id\<close>, \<^verbatim>\<open>name\<close>, \<^verbatim>\<open>dataType\<close> and, for some, \<^verbatim>\<open>options\<close> (\<open>None\<close>: the
  key is absent).  The result of the resolver is the dictionary with the keys \<^verbatim>\<open>id\<close>
  and \<^verbatim>\<open>fields\<close>; \<^verbatim>\<open>fields\<close> maps a name to its field.  Keys are compared as JSON
  values (Python also takes \<^verbatim>\<open>True\<close>, \<^verbatim>\<open>1\<close> and \<^verbatim>\<open>1.0\<close> for one key; a string is
  equal to strings only, and the script looks up strings only).
\<close>

record field =
  f_id :: json
  f_name :: json
  f_dataType :: json
  f_options :: "json option"

type_synonym field_map = "json \<rightharpoonup> field"

record project =
  p_id :: json
  p_fields :: field_map

text \<open>\<^verbatim>\<open>(d.get(kind) or {}).get("projectV2")\<close>\<close>

definition board_of :: "json \<Rightarrow> string \<Rightarrow> exn + json" where
  "board_of d kind =
     res_bind (py_get d kind) (\<lambda>u. py_get (py_or u (JDict [])) ''projectV2'')"

definition project_vars :: "string \<Rightarrow> int \<Rightarrow> json" where
  "project_vars owner number = JDict [(''owner'', JStr owner), (''number'', JInt number)]"

text \<open>A list or a dictionary cannot be the key of a dictionary.\<close>

fun hashable :: "json \<Rightarrow> bool" where
  "hashable (JList xs) = False"
| "hashable (JDict kvs) = False"
| "hashable v = True"

text \<open>The body of the loop over the nodes, lines 93 to 102: \<open>None\<close> is
  \<^verbatim>\<open>continue\<close>, otherwise the key and the field that are stored.\<close>

definition field_of_node :: "json \<Rightarrow> exn + (json \<times> field) option" where
  "field_of_node node =
     (if \<not> truthy node then Inr None
      else res_bind (py_get node ''name'') (\<lambda>name.
        if \<not> truthy name then Inr None
        else res_bind (py_get node ''id'') (\<lambda>fid.
             res_bind (py_get node ''dataType'') (\<lambda>dt.
             res_bind (py_get node ''__typename'') (\<lambda>tn.
             res_bind (if tn = JStr ''ProjectV2SingleSelectField''
                       then res_bind (py_get_default node ''options'' (JList [])) (\<lambda>os.
                              Inr (Some (py_or os (JList []))))
                       else Inr None) (\<lambda>opts.
             if hashable name
             then Inr (Some (name, \<lparr>f_id = fid, f_name = name, f_dataType = dt, f_options = opts\<rparr>))
             else Inl TypeError))))))"

fun build_fields :: "field_map \<Rightarrow> json list \<Rightarrow> exn + field_map" where
  "build_fields field_by_name [] = Inr field_by_name"
| "build_fields field_by_name (node # nodes) =
     (case field_of_node node of
        Inl e \<Rightarrow> Inl e
      | Inr None \<Rightarrow> build_fields field_by_name nodes
      | Inr (Some (k, f)) \<Rightarrow> build_fields (field_by_name(k \<mapsto> f)) nodes)"

text \<open>Lines 69 to 73: the lookup under \<^verbatim>\<open>user\<close>, where a \<^verbatim>\<open>RuntimeError\<close> counts as
  no board.\<close>

definition user_project :: "env \<Rightarrow> string \<Rightarrow> string \<Rightarrow> int \<Rightarrow> json io" where
  "user_project E tok owner number =
     io_except is_RuntimeError
       (io_bind (gql E tok Q_user_project (project_vars owner number)) (\<lambda>d.
          io_of (board_of d ''user'')))
       (\<lambda>e. io_return JNull)"

text \<open>Lines 80 to 82: the lookup under \<^verbatim>\<open>organization\<close>, outside any \<^verbatim>\<open>try\<close>.\<close>

definition org_project :: "env \<Rightarrow> string \<Rightarrow> string \<Rightarrow> int \<Rightarrow> json io" where
  "org_project E tok owner number =
     io_bind (gql E tok Q_org_project (project_vars owner number)) (\<lambda>d.
       io_of (board_of d ''organization''))"

text \<open>Lines 84 to 104, for the board \<open>proj\<close> found at \<open>place\<close>: no board raises; a
  board is announced, its fields are normalised by name and returned with its \<^verbatim>\<open>id\<close>.\<close>

definition board_fields :: "string \<Rightarrow> int \<Rightarrow> json \<Rightarrow> string \<Rightarrow> project io" where
  "board_fields owner number proj place =
     (if \<not> truthy proj then io_raise (RuntimeError (Project_not_found number owner))
      else
        io_bind (print Stdout (Info_project_found place)) (\<lambda>_.
        io_bind (io_of (res_bind (py_index proj ''fields'') (\<lambda>fs.
                        res_bind (py_index fs ''nodes'') py_iter))) (\<lambda>nodes.
        io_bind (io_of (build_fields Map.empty nodes)) (\<lambda>field_by_name.
        io_bind (io_of (py_index proj ''id'')) (\<lambda>pid.
        io_return \<lparr>p_id = pid, p_fields = field_by_name\<rparr>)))))"

definition get_project_and_fields :: "env \<Rightarrow> string \<Rightarrow> string \<Rightarrow> int \<Rightarrow> project io" where
  "get_project_and_fields E tok owner number =
     io_bind (user_project E tok owner number) (\<lambda>user_proj.
     if \<not> truthy user_proj
     then io_bind (org_project E tok owner number) (\<lambda>proj. board_fields owner number proj ''org'')
     else board_fields owner number user_proj ''user'')"

section \<open>Entity lookup\<close>

definition get_repo_id :: "env \<Rightarrow> string \<Rightarrow> string \<Rightarrow> json io" where
  "get_repo_id E tok repo_full =
     io_bind (io_of (split_owner_name repo_full)) (\<lambda>(owner, name).
     io_bind (gql E tok Q_repository (JDict [(''owner'', JStr owner), (''name'', JStr name)])) (\<lambda>d.
     io_bind (io_of (py_index d ''repository'')) (\<lambda>repo.
     if \<not> truthy repo then io_raise (RuntimeError (Repository_not_found repo_full))
     else io_of (py_index repo ''id''))))"

text \<open>
  \<^verbatim>\<open>next((x for x in xs if x["name"].lower() == v.lower()), None)\<close>, used for labels
  and for options: the first element whose name is \<open>v\<close> up to case; an element before
  it without a name, or with a name that is no string, raises.
\<close>

fun first_named :: "env \<Rightarrow> string \<Rightarrow> json list \<Rightarrow> exn + json" where
  "first_named E v [] = Inr JNull"
| "first_named E v (x # xs) =
     (case res_bind (py_index x ''name'') (py_lower E) of
        Inl e \<Rightarrow> Inl e
      | Inr n \<Rightarrow> if n = str_lower E v then Inr x else first_named E v xs)"

definition label_vars :: "string \<Rightarrow> string \<Rightarrow> string \<Rightarrow> json" where
  "label_vars owner name ln =
     JDict [(''owner'', JStr owner), (''name'', JStr name), (''query'', JStr ln)]"

text \<open>\<^verbatim>\<open>d["repository"]["labels"]["nodes"]\<close>\<close>

definition label_nodes :: "json \<Rightarrow> exn + json" where
  "label_nodes d =
     res_bind (py_index d ''repository'') (\<lambda>r.
     res_bind (py_index r ''labels'') (\<lambda>l. py_index l ''nodes''))"

text \<open>The loop of lines 134 to 140 over \<^verbatim>\<open>list(remaining)\<close>, with \<^verbatim>\<open>ids\<close> and
  \<^verbatim>\<open>remaining\<close> as it updates them.\<close>

fun label_loop ::
  "env \<Rightarrow> string \<Rightarrow> string \<Rightarrow> string \<Rightarrow> string list \<Rightarrow> json list \<Rightarrow> string set
     \<Rightarrow> (json list \<times> string set) io" where
  "label_loop E tok owner name [] ids remaining = io_return (ids, remaining)"
| "label_loop E tok owner name (ln # lns) ids remaining =
     io_bind (gql E tok Q_labels (label_vars owner name ln)) (\<lambda>d.
     io_bind (io_of (res_bind (label_nodes d) (\<lambda>nodes.
                     res_bind (py_iter nodes) (first_named E ln)))) (\<lambda>found.
     if truthy found
     then io_bind (io_of (py_index found ''id'')) (\<lambda>i.
            label_loop E tok owner name lns (ids @ [i]) (remaining - {ln}))
     else label_loop E tok owner name lns ids remaining))"

text \<open>\<^verbatim>\<open>[x.strip() for x in names if x.strip()]\<close>\<close>

definition stripped_names :: "env \<Rightarrow> string list \<Rightarrow> string list" where
  "stripped_names E names = filter (\<lambda>s. s \<noteq> []) (map (str_strip E) names)"

definition get_label_ids :: "env \<Rightarrow> string \<Rightarrow> string \<Rightarrow> string list \<Rightarrow> json list io" where
  "get_label_ids E tok repo_full label_names =
     (if label_names = [] then io_return []
      else
        io_bind (io_of (split_owner_name repo_full)) (\<lambda>(owner, name).
        io_bind (label_loop E tok owner name
                   (set_order E (set (stripped_names E label_names))) []
                   (set (stripped_names E label_names))) (\<lambda>(ids, remaining).
        io_bind (if remaining \<noteq> {}
                 then print Stderr (Warn_labels_missing (sorted_list_of_set remaining))
                 else io_return ()) (\<lambda>_.
        io_return ids))))"

fun user_loop :: "env \<Rightarrow> string \<Rightarrow> string list \<Rightarrow> json list \<Rightarrow> json list io" where
  "user_loop E tok [] ids = io_return ids"
| "user_loop E tok (lg # lgs) ids =
     io_bind (gql E tok Q_user (JDict [(''login'', JStr lg)])) (\<lambda>d.
     io_bind (io_of (py_get d ''user'')) (\<lambda>u.
     if truthy u
     then io_bind (io_of (py_index u ''id'')) (\<lambda>i. user_loop E tok lgs (ids @ [i]))
     else io_bind (print Stderr (Warn_user_missing lg)) (\<lambda>_. user_loop E tok lgs ids)))"

definition get_user_ids :: "env \<Rightarrow> string \<Rightarrow> string list \<Rightarrow> json list io" where
  "get_user_ids E tok logins =
     (if logins = [] then io_return []
      else user_loop E tok (set_order E (set (stripped_names E logins))) [])"

section \<open>Item creation\<close>

text \<open>\<^verbatim>\<open>ids or None\<close> for a list \<open>ids\<close>\<close>

definition list_or_None :: "json list \<Rightarrow> json" where
  "list_or_None ids = (if ids = [] then JNull else JList ids)"

definition issue_input :: "json \<Rightarrow> string \<Rightarrow> string \<Rightarrow> json list \<Rightarrow> json list \<Rightarrow> json" where
  "issue_input repo_id title body label_ids assignee_ids =
     JDict [(''input'', JDict
       [(''repositoryId'', repo_id),
        (''title'', JStr title),
        (''body'', JStr body),
        (''labelIds'', list_or_None label_ids),
        (''assigneeIds'', list_or_None assignee_ids)])]"

definition create_issue ::
  "env \<Rightarrow> string \<Rightarrow> json \<Rightarrow> string \<Rightarrow> string \<Rightarrow> json list \<Rightarrow> json list \<Rightarrow> json io" where
  "create_issue E tok repo_id title body label_ids assignee_ids =
     io_bind (gql E tok M_createIssue
                (issue_input repo_id title body label_ids assignee_ids)) (\<lambda>d.
     io_bind (io_of (res_bind (py_index d ''createIssue'') (\<lambda>c. py_index c ''issue''))) (\<lambda>issue.
     io_bind (io_of (py_index issue ''number'')) (\<lambda>num.
     io_bind (io_of (py_index issue ''url'')) (\<lambda>url.
     io_bind (print Stdout (Created_issue num url)) (\<lambda>_.
     io_of (py_index issue ''id''))))))"

definition add_item_to_project :: "env \<Rightarrow> string \<Rightarrow> json \<Rightarrow> json \<Rightarrow> json io" where
  "add_item_to_project E tok project_id content_id =
     io_bind (gql E tok M_addProjectV2ItemById
                (JDict [(''projectId'', project_id), (''contentId'', content_id)])) (\<lambda>d.
     io_of (res_bind (py_index d ''addProjectV2ItemById'') (\<lambda>a.
            res_bind (py_index a ''item'') (\<lambda>item. py_index item ''id''))))"

definition draft_input :: "json \<Rightarrow> string \<Rightarrow> string \<Rightarrow> json list \<Rightarrow> json" where
  "draft_input project_id title body assignee_ids =
     JDict [(''input'', JDict
       [(''projectId'', project_id),
        (''title'', JStr title),
        (''body'', JStr body),
        (''assigneeIds'', list_or_None assignee_ids)])]"

definition create_draft_issue_and_item ::
  "env \<Rightarrow> string \<Rightarrow> json \<Rightarrow> string \<Rightarrow> string \<Rightarrow> json list \<Rightarrow> json io" where
  "create_draft_issue_and_item E tok project_id title body assignee_ids =
     io_bind (gql E tok M_addProjectV2DraftIssue
                (draft_input project_id title body assignee_ids)) (\<lambda>d.
     io_of (res_bind (py_index d ''addProjectV2DraftIssue'') (\<lambda>a.
            res_bind (py_index a ''projectItem'') (\<lambda>item. py_index item ''id''))))"

section \<open>The field value setter\<close>

definition update_input :: "json \<Rightarrow> json \<Rightarrow> json \<Rightarrow> json \<Rightarrow> json" where
  "update_input project_id item_id field_id val =
     JDict [(''input'', JDict
       [(''projectId'', project_id),
        (''itemId'', item_id),
        (''fieldId'', field_id),
        (''value'', val)])]"

text \<open>Lines 222 to 232: the mutation, whose result is dropped.\<close>

definition submit_value :: "env \<Rightarrow> string \<Rightarrow> json \<Rightarrow> json \<Rightarrow> json \<Rightarrow> json \<Rightarrow> unit io" where
  "submit_value E tok project_id item_id field_id val =
     io_bind (gql E tok M_updateProjectV2ItemFieldValue
                (update_input project_id item_id field_id val)) (\<lambda>d. io_return ())"

definition update_field ::
  "env \<Rightarrow> string \<Rightarrow> json \<Rightarrow> json \<Rightarrow> json \<Rightarrow> json \<Rightarrow> string \<Rightarrow> json \<Rightarrow> unit io" where
  "update_field E tok project_id item_id field_id data_type val opts =
     (if data_type = JStr ''TEXT''
      then submit_value E tok project_id item_id field_id (JDict [(''text'', JStr val)])
      else if data_type = JStr ''NUMBER''
      then (case py_float E val of
              None \<Rightarrow> print Stderr (Warn_number_invalid val)
            | Some num \<Rightarrow>
                submit_value E tok project_id item_id field_id (JDict [(''number'', JFloat num)]))
      else if data_type = JStr ''DATE''
      then submit_value E tok project_id item_id field_id (JDict [(''date'', JStr val)])
      else if data_type = JStr ''SINGLE_SELECT''
      then (if \<not> truthy opts then print Stderr Warn_no_options
            else
              io_bind (io_of (res_bind (py_iter opts) (first_named E val))) (\<lambda>opt.
              if \<not> truthy opt then print Stderr (Warn_unknown_option val)
              else
                io_bind (io_of (py_index opt ''id'')) (\<lambda>oid.
                submit_value E tok project_id item_id field_id
                  (JDict [(''singleSelectOptionId'', oid)]))))
      else print Stderr (Info_unsupported_type data_type))"

section \<open>The row driver\<close>

text \<open>
  A record of the input file as \<^verbatim>\<open>csv.DictReader\<close> gives it: the items of the
  dictionary, in the order of the header, a cell a row is too short for being \<^verbatim>\<open>None\<close>.
  (The key \<^verbatim>\<open>None\<close> under which the reader puts the cells beyond the header is left
  out: it is not a reserved name and never the name of a field, so line 316 skips it.)
\<close>

type_synonym row = "(string \<times> string option) list"

text \<open>\<^verbatim>\<open>row.get(k)\<close>\<close>

definition row_get :: "row \<Rightarrow> string \<Rightarrow> string option" where
  "row_get r k = (case map_of r k of None \<Rightarrow> None | Some v \<Rightarrow> v)"

text \<open>\<^verbatim>\<open>x or y\<close> on values that are strings or \<^verbatim>\<open>None\<close>\<close>

definition str_or :: "string option \<Rightarrow> string option \<Rightarrow> string option" where
  "str_or x y = (case x of None \<Rightarrow> y | Some s \<Rightarrow> if s = [] then y else x)"

text \<open>\<^verbatim>\<open>row.get(a) or row.get(b) or ""\<close>\<close>

definition cell :: "row \<Rightarrow> string \<Rightarrow> string \<Rightarrow> string" where
  "cell r a b = (case str_or (row_get r a) (row_get r b) of None \<Rightarrow> [] | Some s \<Rightarrow> s)"

definition reserved :: "string list" where
  "reserved = [''Title'', ''title'', ''Body'', ''body'', ''Labels'', ''labels'',
               ''Assignees'', ''assignees'']"

text \<open>Lines 319 to 321: \<^verbatim>\<open>field.get("options") or []\<close> for a single-select field,
  \<^verbatim>\<open>None\<close> for the others.\<close>

definition options_of :: "field \<Rightarrow> json" where
  "options_of fld =
     (if f_dataType fld = JStr ''SINGLE_SELECT''
      then (case f_options fld of None \<Rightarrow> JList [] | Some os \<Rightarrow> py_or os (JList []))
      else JNull)"

text \<open>Lines 322 to 325: the call of \<^verbatim>\<open>update_field\<close> under \<^verbatim>\<open>except Exception\<close>.\<close>

definition set_field ::
  "env \<Rightarrow> string \<Rightarrow> json \<Rightarrow> json \<Rightarrow> field \<Rightarrow> string \<Rightarrow> string \<Rightarrow> unit io" where
  "set_field E tok project_id item_id fld col_name col_val =
     io_except is_Exception
       (update_field E tok project_id item_id (f_id fld) (f_dataType fld)
          (str_strip E col_val) (options_of fld))
       (\<lambda>e. print Stderr (Warn_field_failed col_name (Some col_val) e))"

text \<open>The loop of lines 310 to 325 over \<^verbatim>\<open>row.items()\<close>.  A recorded field is a
  dictionary with three keys or four, so \<^verbatim>\<open>not field\<close> holds for a missing name only.\<close>

fun set_fields :: "env \<Rightarrow> string \<Rightarrow> json \<Rightarrow> json \<Rightarrow> field_map \<Rightarrow> row \<Rightarrow> unit io" where
  "set_fields E tok project_id item_id project_fields [] = io_return ()"
| "set_fields E tok project_id item_id project_fields ((col_name, col_val) # cols) =
     (if col_name \<in> set reserved
      then set_fields E tok project_id item_id project_fields cols
      else (case col_val of
              None \<Rightarrow> set_fields E tok project_id item_id project_fields cols
            | Some v \<Rightarrow>
                if str_strip E v = []
                then set_fields E tok project_id item_id project_fields cols
                else (case project_fields (JStr col_name) of
                        None \<Rightarrow> set_fields E tok project_id item_id project_fields cols
                      | Some fld \<Rightarrow>
                          io_bind (set_field E tok project_id item_id fld col_name v) (\<lambda>_.
                          set_fields E tok project_id item_id project_fields cols))))"

text \<open>\<^verbatim>\<open>[x.strip() for x in raw.split(",")] if raw else []\<close>\<close>

definition names_of :: "env \<Rightarrow> string \<Rightarrow> string list" where
  "names_of E raw = (if raw = [] then [] else map (str_strip E) (split CHR '','' raw))"

text \<open>
  Lines 288 to 307 for a record with the title \<open>title\<close>: the assignees are resolved,
  then the item is created, as a draft on the board or as an issue of the repository
  that is then added to the board.  \<open>repo\<close> and \<open>repo_id\<close> are \<^verbatim>\<open>args.repo\<close> and
  \<^verbatim>\<open>repo_id\<close>, which are read when \<open>draft\<close> is false only.
\<close>

definition create_item ::
  "env \<Rightarrow> string \<Rightarrow> project \<Rightarrow> bool \<Rightarrow> string \<Rightarrow> json \<Rightarrow> string \<Rightarrow> row \<Rightarrow> json io" where
  "create_item E tok proj draft repo repo_id title r =
     io_bind (get_user_ids E tok
                (map lstrip_at (names_of E (cell r ''Assignees'' ''assignees'')))) (\<lambda>assignee_ids.
     if draft
     then io_bind (create_draft_issue_and_item E tok (p_id proj) title
                     (cell r ''Body'' ''body'') assignee_ids) (\<lambda>item_id.
          io_bind (print Stdout (Draft_created item_id)) (\<lambda>_.
          io_return item_id))
     else io_bind (get_label_ids E tok repo
                     (names_of E (cell r ''Labels'' ''labels''))) (\<lambda>label_ids.
          io_bind (create_issue E tok repo_id title (cell r ''Body'' ''body'')
                     label_ids assignee_ids) (\<lambda>issue_id.
          io_bind (add_item_to_project E tok (p_id proj) issue_id) (\<lambda>item_id.
          io_bind (print Stdout (Added_item item_id)) (\<lambda>_.
          io_return item_id)))))"

text \<open>\<^verbatim>\<open>time.sleep(secs)\<close>: the script sleeps, or \<^verbatim>\<open>time.sleep\<close> raises and nothing
  happened.\<close>

definition sleep :: "env \<Rightarrow> pyfloat \<Rightarrow> unit io" where
  "sleep E secs w =
     (case time_sleep E secs of
        None \<Rightarrow> (Inr (), w\<lparr>printed := printed w @ [Sleep secs]\<rparr>)
      | Some e \<Rightarrow> (Inl e, w))"

text \<open>
  The body of the loop over the records, lines 284 to 327, for record number \<open>i\<close>: a
  record without a title is reported and left (\<^verbatim>\<open>continue\<close>); otherwise the item is
  created, the fields are set and the script sleeps for \<^verbatim>\<open>args.rate_sleep\<close> seconds,
  outside any \<^verbatim>\<open>try\<close>.
\<close>

definition process_row ::
  "env \<Rightarrow> string \<Rightarrow> project \<Rightarrow> bool \<Rightarrow> string \<Rightarrow> json \<Rightarrow> pyfloat \<Rightarrow> nat \<Rightarrow> row
     \<Rightarrow> unit io" where
  "process_row E tok proj draft repo repo_id rate_sleep i r =
     (case str_or (row_get r ''Title'') (row_get r ''title'') of
        None \<Rightarrow> print Stderr (Error_missing_title i)
      | Some title \<Rightarrow>
          if title = [] then print Stderr (Error_missing_title i)
          else
            io_bind (create_item E tok proj draft repo repo_id title r) (\<lambda>item_id.
            io_bind (set_fields E tok (p_id proj) item_id (p_fields proj) r) (\<lambda>_.
            sleep E rate_sleep)))"

text \<open>The loop of line 283: \<^verbatim>\<open>enumerate(reader, start=1)\<close>.\<close>

fun process_rows ::
  "env \<Rightarrow> string \<Rightarrow> project \<Rightarrow> bool \<Rightarrow> string \<Rightarrow> json \<Rightarrow> pyfloat \<Rightarrow> nat \<Rightarrow> row list
     \<Rightarrow> unit io" where
  "process_rows E tok proj draft repo repo_id rate_sleep i [] = io_return ()"
| "process_rows E tok proj draft repo repo_id rate_sleep i (r # rs) =
     io_bind (process_row E tok proj draft repo repo_id rate_sleep i r) (\<lambda>_.
     process_rows E tok proj draft repo repo_id rate_sleep (Suc i) rs)"

text \<open>
  The arguments \<^verbatim>\<open>main\<close> reads (\<^verbatim>\<open>--token\<close>, \<^verbatim>\<open>--project-owner\<close>,
  \<^verbatim>\<open>--project-number\<close>, \<^verbatim>\<open>--repo\<close>, \<^verbatim>\<open>--draft\<close>, \<^verbatim>\<open>--rate-sleep\<close>, which
  \<^verbatim>\<open>argparse\<close> has converted with \<^verbatim>\<open>float\<close> and not checked further), the variable
  \<^verbatim>\<open>GITHUB_TOKEN\<close> of the environment, and the records of the file.
\<close>

record args =
  arg_token :: "string option"
  arg_project_owner :: string
  arg_project_number :: int
  arg_repo :: "string option"
  arg_draft :: bool
  arg_rate_sleep :: pyfloat

definition main :: "env \<Rightarrow> args \<Rightarrow> string option \<Rightarrow> row list \<Rightarrow> unit io" where
  "main E a environ_token rows =
     (case str_or (arg_token a) environ_token of
        None \<Rightarrow> io_bind (print Stderr Missing_token) (\<lambda>_. io_raise (SystemExit 1))
      | Some tok \<Rightarrow>
          if tok = [] then io_bind (print Stderr Missing_token) (\<lambda>_. io_raise (SystemExit 1))
          else
            io_bind (get_project_and_fields E tok (arg_project_owner a)
                       (arg_project_number a)) (\<lambda>proj.
            if arg_draft a
            then process_rows E tok proj True
                   (case arg_repo a of None \<Rightarrow> [] | Some r \<Rightarrow> r) JNull (arg_rate_sleep a) 1 rows
            else (case arg_repo a of
                    None \<Rightarrow> io_bind (print Stderr Missing_repo) (\<lambda>_. io_raise (SystemExit 1))
                  | Some r \<Rightarrow>
                      if r = [] then io_bind (print Stderr Missing_repo) (\<lambda>_. io_raise (SystemExit 1))
                      else io_bind (get_repo_id E tok r) (\<lambda>repo_id.
                           process_rows E tok proj False r repo_id (arg_rate_sleep a) 1 rows))))"

section \<open>What a computation does\<close>

text \<open>
  \<open>does R P X m\<close>: from every state, \<open>m\<close> only appends to the requests and to the
  printed lines, every request it posts satisfies \<open>R\<close>, every line it prints satisfies
  \<open>P\<close>, and every exception it raises satisfies \<open>X\<close>.
\<close>

definition res_only :: "(exn \<Rightarrow> bool) \<Rightarrow> exn + 'a \<Rightarrow> bool" where
  "res_only X r = (case r of Inl e \<Rightarrow> X e | Inr x \<Rightarrow> True)"

definition does ::
  "(request \<Rightarrow> bool) \<Rightarrow> (event \<Rightarrow> bool) \<Rightarrow> (exn \<Rightarrow> bool) \<Rightarrow> 'a io \<Rightarrow> bool" where
  "does R P X m =
     (\<forall>w. \<exists>cs ps. snd (m w) = w\<lparr>calls := calls w @ cs, printed := printed w @ ps\<rparr>
             \<and> list_all R cs \<and> list_all P ps \<and> res_only X (fst (m w)))"

section \<open>Notions the statements use\<close>

text \<open>
  The options of a field and the candidate labels of a repository are asked for as
  \<^verbatim>\<open>{ id name }\<close>, and \<^verbatim>\<open>update_field\<close> declares its options as
  \<^verbatim>\<open>Optional[List[Dict[str,str]]]\<close>: \<open>named_node\<close> is a dictionary with a string under
  \<^verbatim>\<open>name\<close> and a string under \<^verbatim>\<open>id\<close>.  \<open>name_is E v x\<close>: the element \<open>x\<close> has a string
  under \<^verbatim>\<open>name\<close> that is equal to \<open>v\<close> once \<^verbatim>\<open>lower()\<close> has folded the case of both.
\<close>

definition named_node :: "json \<Rightarrow> bool" where
  "named_node x =
     (case py_index x ''name'' of
        Inr (JStr n) \<Rightarrow> (case py_index x ''id'' of Inr (JStr i) \<Rightarrow> True | _ \<Rightarrow> False)
      | _ \<Rightarrow> False)"

definition name_is :: "env \<Rightarrow> string \<Rightarrow> json \<Rightarrow> bool" where
  "name_is E v x =
     (case py_index x ''name'' of
        Inr (JStr n) \<Rightarrow> str_lower E n = str_lower E v
      | _ \<Rightarrow> False)"

text \<open>
  The lookup under \<^verbatim>\<open>user\<close> yields no board: the call raised a \<^verbatim>\<open>RuntimeError\<close>, which
  line 72 catches, or it returned a payload whose \<^verbatim>\<open>user.projectV2\<close> is absent or falsy.
\<close>

definition user_lookup_empty :: "env \<Rightarrow> string \<Rightarrow> string \<Rightarrow> int \<Rightarrow> world \<Rightarrow> bool" where
  "user_lookup_empty E tok owner number w =
     (case fst (gql E tok Q_user_project (project_vars owner number) w) of
        Inl e \<Rightarrow> is_RuntimeError e
      | Inr d \<Rightarrow> (case board_of d ''user'' of Inl e \<Rightarrow> False | Inr b \<Rightarrow> \<not> truthy b))"

text \<open>
  A node of the board that bears the name \<open>k\<close>: the node is not \<^verbatim>\<open>null\<close> or empty, and
  \<open>k\<close> is what it has under \<^verbatim>\<open>name\<close>, which is not \<^verbatim>\<open>null\<close> or empty either.
\<close>

definition bears_name :: "json \<Rightarrow> json \<Rightarrow> bool" where
  "bears_name k node = (truthy node \<and> truthy k \<and> py_get node ''name'' = Inr k)"

text \<open>
  The columns of a record for which the coercion is to run, each with its field: the
  name is not reserved, the value is there and not blank, and the name is the name of a
  field.  \<open>set_all\<close> runs \<open>set_field\<close> on each of them in order.
\<close>

definition eligible_columns :: "env \<Rightarrow> field_map \<Rightarrow> row \<Rightarrow> (field \<times> string \<times> string) list" where
  "eligible_columns E project_fields cols =
     List.map_filter (\<lambda>(col_name, col_val).
       case col_val of
         None \<Rightarrow> None
       | Some v \<Rightarrow>
           if col_name \<in> set reserved \<or> str_strip E v = [] then None
           else (case project_fields (JStr col_name) of
                   None \<Rightarrow> None
                 | Some fld \<Rightarrow> Some (fld, col_name, v))) cols"

fun set_all :: "env \<Rightarrow> string \<Rightarrow> json \<Rightarrow> json \<Rightarrow> (field \<times> string \<times> string) list \<Rightarrow> unit io" where
  "set_all E tok project_id item_id [] = io_return ()"
| "set_all E tok project_id item_id ((fld, col_name, v) # xs) =
     io_bind (set_field E tok project_id item_id fld col_name v) (\<lambda>_.
     set_all E tok project_id item_id xs)"

text \<open>The warning of line 142 about labels that are not in the repository.\<close>

definition is_label_warning :: "event \<Rightarrow> bool" where
  "is_label_warning ev = (case ev of Print s (Warn_labels_missing ns) \<Rightarrow> True | _ \<Rightarrow> False)"

text \<open>The record with \<open>v'\<close> in its cells \<^verbatim>\<open>Labels\<close> and \<^verbatim>\<open>labels\<close>.\<close>

definition with_labels :: "string option \<Rightarrow> row \<Rightarrow> row" where
  "with_labels v' r =
     map (\<lambda>(c, v). if c = ''Labels'' \<or> c = ''labels'' then (c, v') else (c, v)) r"

text \<open>The requests of a record in draft mode: a lookup of a user, an update of a field, or
  the creation of a draft from a \<open>draft_input\<close>, which has no \<^verbatim>\<open>labelIds\<close>.\<close>

definition draft_request :: "string \<Rightarrow> request \<Rightarrow> bool" where
  "draft_request tok rq =
     (req_query rq = Q_user \<or> req_query rq = M_updateProjectV2ItemFieldValue
      \<or> (\<exists>pid title body ids.
            rq = request_of tok M_addProjectV2DraftIssue (draft_input pid title body ids)))"

text \<open>
  The label query for the name \<open>ln\<close>, and the candidates the service returns to it when it
  is posted in the state \<open>w\<close>.  \<open>answers\<close>: what the service returns to the queries for the
  names \<open>lns\<close> posted one after the other from the state \<open>w\<close>, each query being answered
  with the queries before it on the record.
\<close>

definition asked :: "string \<Rightarrow> string \<Rightarrow> string \<Rightarrow> string \<Rightarrow> request" where
  "asked tok owner name ln = request_of tok Q_labels (label_vars owner name ln)"

definition candidates :: "env \<Rightarrow> string \<Rightarrow> string \<Rightarrow> string \<Rightarrow> string \<Rightarrow> world \<Rightarrow> exn + json list" where
  "candidates E tok owner name ln w =
     res_bind (fst (gql E tok Q_labels (label_vars owner name ln) w)) (\<lambda>d.
     res_bind (label_nodes d) py_iter)"

fun answers ::
  "env \<Rightarrow> string \<Rightarrow> string \<Rightarrow> string \<Rightarrow> world \<Rightarrow> string list \<Rightarrow> (exn + json list) list" where
  "answers E tok owner name w [] = []"
| "answers E tok owner name w (ln # lns) =
     candidates E tok owner name ln w
     # answers E tok owner name (w\<lparr>calls := calls w @ [asked tok owner name ln]\<rparr>) lns"

text \<open>
  The candidate accepted for the name \<open>ln\<close> among the candidates \<open>nodes\<close> returned to its
  query: the first one whose name is \<open>ln\<close> up to case.  For the names \<open>lns\<close> and the lists
  of candidates \<open>nodess\<close> returned to their queries: \<open>matched_ids\<close> are the identifiers of
  the accepted candidates, in the order of the names; \<open>unmatched\<close> are the names for which
  no candidate is accepted.
\<close>

definition accepted :: "env \<Rightarrow> string \<Rightarrow> json list \<Rightarrow> json option" where
  "accepted E ln nodes = find (name_is E ln) nodes"

definition matched_ids :: "env \<Rightarrow> string list \<Rightarrow> json list list \<Rightarrow> (exn + json) list" where
  "matched_ids E lns nodess =
     List.map_filter (\<lambda>(ln, nodes). map_option (\<lambda>x. py_index x ''id'') (accepted E ln nodes))
       (zip lns nodess)"

definition unmatched :: "env \<Rightarrow> string list \<Rightarrow> json list list \<Rightarrow> string list" where
  "unmatched E lns nodess =
     map fst (filter (\<lambda>(ln, nodes). accepted E ln nodes = None) (zip lns nodess))"

text \<open>What Python guarantees of the iteration over a set: every element once.\<close>

definition set_order_ok :: "env \<Rightarrow> bool" where
  "set_order_ok E = (\<forall>S. finite S \<longrightarrow> set (set_order E S) = S \<and> distinct (set_order E S))"

text \<open>An answer to a label query that is a list of candidates, each with a name and an
  identifier.\<close>

definition well_answered :: "exn + json list \<Rightarrow> bool" where
  "well_answered r = (case r of Inl e \<Rightarrow> False | Inr nodes \<Rightarrow> list_all named_node nodes)"

section \<open>Concrete services and inputs\<close>

text \<open>
  The runtime of the examples.  Its \<^verbatim>\<open>lower\<close> folds the letters \<^verbatim>\<open>A\<close> to \<^verbatim>\<open>Z\<close> and
  its \<^verbatim>\<open>strip\<close> removes the white space of ASCII (the bytes 9 to 13, 28 to 32), which
  is what the two methods do on a string of ASCII characters; the strings of the examples
  are of that kind.  Its \<^verbatim>\<open>time.sleep\<close> keeps time in nanoseconds in 64 bits: it raises
  \<^verbatim>\<open>ValueError\<close> for not-a-number, \<^verbatim>\<open>OverflowError\<close> for a delay the clock cannot hold,
  \<^verbatim>\<open>ValueError\<close> for a negative delay, and sleeps otherwise.
\<close>

definition ascii_lower_char :: "char \<Rightarrow> char" where
  "ascii_lower_char c =
     (case map_of (zip ''ABCDEFGHIJKLMNOPQRSTUVWXYZ'' ''abcdefghijklmnopqrstuvwxyz'') c of
        None \<Rightarrow> c
      | Some l \<Rightarrow> l)"

definition ascii_lower :: "string \<Rightarrow> string" where
  "ascii_lower s = map ascii_lower_char s"

definition ascii_space :: "char \<Rightarrow> bool" where
  "ascii_space c = (of_char c \<in> {9, 10, 11, 12, 13, 28, 29, 30, 31, 32 :: nat})"

definition ascii_strip :: "string \<Rightarrow> string" where
  "ascii_strip s = rev (dropWhile ascii_space (rev (dropWhile ascii_space s)))"

definition clock_holds :: "int \<Rightarrow> int \<Rightarrow> bool" where
  "clock_holds m e =
     (if 0 \<le> e then \<bar>m\<bar> * 10 ^ 9 * 2 ^ nat e < 2 ^ 63
      else \<bar>m\<bar> * 10 ^ 9 < 2 ^ 63 * 2 ^ nat (- e))"

definition clock_sleep :: "pyfloat \<Rightarrow> exn option" where
  "clock_sleep secs =
     (case secs of
        NaN \<Rightarrow> Some ValueError
      | Infinite b \<Rightarrow> Some OverflowError
      | Finite m e \<Rightarrow>
          if \<not> clock_holds m e then Some OverflowError
          else if m < 0 then Some ValueError
          else None)"

text \<open>
  A service is given by its \<open>post\<close>; these environments parse no string as a float and
  iterate a set of strings in increasing order.
\<close>

definition env_of :: "(request list \<Rightarrow> request \<Rightarrow> response option) \<Rightarrow> env" where
  "env_of p =
     \<lparr>post = p, py_float = (\<lambda>s. None), set_order = sorted_list_of_set,
      str_lower = ascii_lower, str_strip = ascii_strip, time_sleep = clock_sleep\<rparr>"

definition w0 :: world where
  "w0 = \<lparr>calls = [], printed = []\<rparr>"

definition answer :: "int \<Rightarrow> string \<Rightarrow> json \<Rightarrow> response" where
  "answer st txt body = \<lparr>status_code = st, resp_text = txt, resp_json = Some body\<rparr>"

text \<open>A service that answers 200 with the payload \<open>d\<close> to every request.\<close>

definition data_env :: "json \<Rightarrow> env" where
  "data_env d = env_of (\<lambda>h r. Some (answer 200 [] (JDict [(''data'', d)])))"

text \<open>A service that answers 502 to every request.\<close>

definition bad_gateway_env :: env where
  "bad_gateway_env = env_of (\<lambda>h r. Some (answer 502 ''Bad Gateway'' JNull))"

text \<open>A service that answers 200 with an error list to every request.\<close>

definition errors_env :: env where
  "errors_env =
     env_of (\<lambda>h r. Some (answer 200 [] (JDict [(''errors'', JList [JStr ''boom''])])))"

text \<open>A service that answers 200 with the empty JSON object to every request.\<close>

definition empty_body_env :: env where
  "empty_body_env = env_of (\<lambda>h r. Some (answer 200 ''{}'' (JDict [])))"

text \<open>A service that answers 200 with the payload \<^verbatim>\<open>null\<close>, under a \<^verbatim>\<open>float\<close> that parses
  \<^verbatim>\<open>3.5\<close> only.\<close>

definition float_env :: env where
  "float_env =
     \<lparr>post = (\<lambda>h r. Some (answer 200 [] (JDict [(''data'', JNull)]))),
      py_float = (\<lambda>s. if s = ''3.5'' then Some (Finite 7 (- 1)) else None),
      set_order = sorted_list_of_set,
      str_lower = ascii_lower, str_strip = ascii_strip, time_sleep = clock_sleep\<rparr>"

text \<open>The options of Scenario C, and a list of options whose second name has every
  letter from \<^verbatim>\<open>a\<close> to \<^verbatim>\<open>z\<close>.\<close>

definition priority_options :: json where
  "priority_options = JList
     [JDict [(''id'', JStr ''o1''), (''name'', JStr ''Low'')],
      JDict [(''id'', JStr ''o2''), (''name'', JStr ''Medium'')],
      JDict [(''id'', JStr ''o3''), (''name'', JStr ''High'')]]"

definition pangram_options :: json where
  "pangram_options = JList
     [JDict [(''id'', JStr ''p1''), (''name'', JStr ''the five boxing wizards'')],
      JDict [(''id'', JStr ''p2''), (''name'', JStr ''the five boxing wizards jump quickly'')],
      JDict [(''id'', JStr ''p3''), (''name'', JStr ''The Five Boxing Wizards Jump Quickly'')]]"

text \<open>A service that answers every lookup with status 200, a \<^verbatim>\<open>null\<close> owner and an
  error entry \<^verbatim>\<open>NOT_FOUND\<close>.\<close>

definition not_found_env :: env where
  "not_found_env =
     env_of (\<lambda>h r. Some (answer 200 []
       (JDict [(''data'', JDict [(if req_query r = Q_user_project then ''user'' else ''organization'', JNull)]),
               (''errors'', JList [JDict [(''type'', JStr ''NOT_FOUND'')]])])))"

text \<open>A service whose payload has a board under \<^verbatim>\<open>user\<close> with six field nodes: a
  single-select field \<^verbatim>\<open>Status\<close>, \<^verbatim>\<open>null\<close>, a number field \<^verbatim>\<open>Points\<close>, a second,
  text field \<^verbatim>\<open>Status\<close>, a node without a name and a single-select field \<^verbatim>\<open>Priority\<close>
  with two options.\<close>

definition board_nodes :: "json list" where
  "board_nodes =
     [JDict [(''__typename'', JStr ''ProjectV2SingleSelectField''), (''id'', JStr ''F1''),
             (''name'', JStr ''Status''), (''dataType'', JStr ''SINGLE_SELECT''),
             (''options'', JList [JDict [(''id'', JStr ''o1''), (''name'', JStr ''Todo'')]])],
      JNull,
      JDict [(''__typename'', JStr ''ProjectV2Field''), (''id'', JStr ''F2''),
             (''name'', JStr ''Points''), (''dataType'', JStr ''NUMBER'')],
      JDict [(''__typename'', JStr ''ProjectV2Field''), (''id'', JStr ''F3''),
             (''name'', JStr ''Status''), (''dataType'', JStr ''TEXT'')],
      JDict [(''__typename'', JStr ''ProjectV2Field''), (''id'', JStr ''F4'')],
      JDict [(''__typename'', JStr ''ProjectV2SingleSelectField''), (''id'', JStr ''F5''),
             (''name'', JStr ''Priority''), (''dataType'', JStr ''SINGLE_SELECT''),
             (''options'', JList [JDict [(''id'', JStr ''o7''), (''name'', JStr ''Low'')],
                                  JDict [(''id'', JStr ''o8''), (''name'', JStr ''High'')]])]]"

definition board_env :: env where
  "board_env = data_env (JDict [(''user'', JDict [(''projectV2'', JDict
     [(''id'', JStr ''PVT_1''),
      (''fields'', JDict [(''nodes'', JList board_nodes)])])])])"

text \<open>A board with the fields \<^verbatim>\<open>Title\<close>, \<^verbatim>\<open>Notes\<close> (text) and \<^verbatim>\<open>Points\<close> (number), and
  three records.\<close>

definition text_field :: "string \<Rightarrow> string \<Rightarrow> field" where
  "text_field fid name =
     \<lparr>f_id = JStr fid, f_name = JStr name, f_dataType = JStr ''TEXT'', f_options = None\<rparr>"

definition example_fields :: field_map where
  "example_fields =
     [JStr ''Title'' \<mapsto> text_field ''F0'' ''Title'',
      JStr ''Notes'' \<mapsto> text_field ''F1'' ''Notes'',
      JStr ''Points'' \<mapsto> \<lparr>f_id = JStr ''F2'', f_name = JStr ''Points'',
                               f_dataType = JStr ''NUMBER'', f_options = None\<rparr>]"

definition example_project :: project where
  "example_project = \<lparr>p_id = JStr ''PVT_1'', p_fields = example_fields\<rparr>"

definition example_row :: row where
  "example_row =
     [(''Title'', Some ''Fix bug''), (''Labels'', Some ''bug, urgent''), (''Notes'', Some '' hello ''),
      (''Owner'', Some ''x''), (''notes'', Some ''y''), (''Points'', Some ''  ''), (''Sprint'', None)]"

definition untitled_row :: row where
  "untitled_row = [(''Title'', Some []), (''Body'', Some ''text''), (''Notes'', Some ''n'')]"

definition failing_row :: row where
  "failing_row = [(''Title'', Some ''Fix bug''), (''Notes'', Some ''hello''), (''Points'', Some ''abc'')]"

text \<open>A service whose payload carries the item of a created draft.\<close>

definition draft_env :: env where
  "draft_env = data_env (JDict [(''addProjectV2DraftIssue'',
     JDict [(''projectItem'', JDict [(''id'', JStr ''ITEM_1'')])])])"

text \<open>A service that returns the labels \<^verbatim>\<open>bugfix\<close>, \<^verbatim>\<open>Bug\<close> and a third one, whose name
  has every letter from \<^verbatim>\<open>a\<close> to \<^verbatim>\<open>z\<close>, to every label query.\<close>

definition label_candidates :: "json list" where
  "label_candidates =
     [JDict [(''id'', JStr ''L2''), (''name'', JStr ''bugfix'')],
      JDict [(''id'', JStr ''L1''), (''name'', JStr ''Bug'')],
      JDict [(''id'', JStr ''L3''), (''name'', JStr ''the five boxing wizards jump quickly'')]]"

definition label_env :: env where
  "label_env = data_env (JDict [(''repository'', JDict [(''labels'', JDict [(''nodes'',
     JList label_candidates)])])])"

text \<open>A service that knows the label \<^verbatim>\<open>bug\<close> from the second label query on only: its
  answer depends on the requests before.\<close>

definition late_env :: env where
  "late_env = env_of (\<lambda>h r. Some (answer 200 [] (JDict [(''data'',
     JDict [(''repository'', JDict [(''labels'', JDict [(''nodes'', JList
       (if h = [] then [] else [JDict [(''id'', JStr ''L1''), (''name'', JStr ''bug'')]]))])])])])))"

section \<open>Exceptions and effects of the building blocks\<close>

lemma res_only_Inr [simp]: "res_only X (Inr x)"
  by (simp add: res_only_def)

lemma res_only_Inl [simp]: "res_only X (Inl e) = X e"
  by (simp add: res_only_def)

lemma res_only_bind:
  "res_only X r \<Longrightarrow> (\<And>x. res_only X (f x)) \<Longrightarrow> res_only X (res_bind r f)"
  by (cases r) (simp_all add: res_bind_def)

lemma res_only_py_get_default: "res_only is_Exception (py_get_default d k v)"
  by (cases d) simp_all

lemma res_only_py_get: "res_only is_Exception (py_get d k)"
  by (simp add: py_get_def res_only_py_get_default)

lemma res_only_py_index: "res_only is_Exception (py_index d k)"
  by (cases d) (simp_all split: option.splits)

lemma res_only_py_in: "res_only is_Exception (py_in k d)"
  by (cases d) simp_all

lemma res_only_py_iter: "res_only is_Exception (py_iter d)"
  by (cases d) simp_all

lemma res_only_py_lower: "res_only is_Exception (py_lower E d)"
  by (cases d) simp_all

lemma res_only_first_named: "res_only is_Exception (first_named E v xs)"
proof (induction xs)
  case Nil
  show ?case by simp
next
  case (Cons x xs)
  have "res_only is_Exception (res_bind (py_index x ''name'') (py_lower E))"
    by (intro res_only_bind res_only_py_index res_only_py_lower)
  with Cons show ?case
    by (cases "res_bind (py_index x ''name'') (py_lower E)") simp_all
qed

lemma res_only_gql_decode: "res_only is_Exception (gql_decode r)"
  unfolding gql_decode_def
  by (auto split: option.splits intro!: res_only_bind res_only_py_in res_only_py_index)

lemma world_same [simp]: "w\<lparr>calls := calls w @ [], printed := printed w @ []\<rparr> = w"
  by simp

lemma does_return: "does R P X (io_return x)"
  unfolding does_def io_return_def
  by (intro allI exI [where x = "[]"]) simp

lemma does_raise: "X e \<Longrightarrow> does R P X (io_raise e)"
  unfolding does_def io_raise_def
  by (intro allI exI [where x = "[]"]) simp

lemma does_of: "res_only X r \<Longrightarrow> does R P X (io_of r)"
  unfolding does_def io_of_def
  by (intro allI exI [where x = "[]"]) simp

lemma does_print: "P (Print s m) \<Longrightarrow> does R P X (print s m)"
  unfolding does_def print_def
  by (intro allI exI [where x = "[]"] exI [where x = "[Print s m]"]) simp

lemma does_sleep:
  assumes "P (Sleep secs)" and "\<And>e. time_sleep E secs = Some e \<Longrightarrow> X e"
  shows "does R P X (sleep E secs)"
proof (cases "time_sleep E secs")
  case None
  show ?thesis
    unfolding does_def sleep_def None
    by (intro allI exI [where x = "[]"] exI [where x = "[Sleep secs]"]) (simp add: assms(1))
next
  case (Some e)
  show ?thesis
    unfolding does_def sleep_def Some
    by (intro allI exI [where x = "[]"]) (simp add: assms(2) [OF Some])
qed

lemma env_of_simps [simp]:
  "post (env_of p) = p" "py_float (env_of p) = (\<lambda>s. None)"
  "set_order (env_of p) = sorted_list_of_set" "str_lower (env_of p) = ascii_lower"
  "str_strip (env_of p) = ascii_strip" "time_sleep (env_of p) = clock_sleep"
  by (simp_all add: env_of_def)

lemma data_env_simps [simp]:
  "set_order (data_env d) = sorted_list_of_set" "str_lower (data_env d) = ascii_lower"
  "str_strip (data_env d) = ascii_strip" "time_sleep (data_env d) = clock_sleep"
  by (simp_all add: data_env_def)

lemma does_gql:
  assumes "R (request_of tok q vars)" and "\<And>e. is_Exception e \<Longrightarrow> X e"
  shows "does R P X (gql E tok q vars)"
  unfolding does_def
proof (intro allI exI [where x = "[request_of tok q vars]"] exI [where x = "[]"] conjI)
  fix w
  show "snd (gql E tok q vars w) = w\<lparr>calls := calls w @ [request_of tok q vars], printed := printed w @ []\<rparr>"
    by (simp add: gql_def split: option.splits)
  show "list_all R [request_of tok q vars]" using assms by simp
  show "list_all P []" by simp
  have "res_only is_Exception (fst (gql E tok q vars w))"
    by (simp add: gql_def res_only_gql_decode split: option.splits)
  then show "res_only X (fst (gql E tok q vars w))"
    using assms(2) by (cases "fst (gql E tok q vars w)") simp_all
qed

lemma does_bind:
  assumes m: "does R P X m" and f: "\<And>x. does R P X (f x)"
  shows "does R P X (io_bind m f)"
  unfolding does_def
proof
  fix w
  from m obtain cs ps where 1: "snd (m w) = w\<lparr>calls := calls w @ cs, printed := printed w @ ps\<rparr>"
    "list_all R cs" "list_all P ps" "res_only X (fst (m w))"
    unfolding does_def by blast
  show "\<exists>cs ps. snd (io_bind m f w) = w\<lparr>calls := calls w @ cs, printed := printed w @ ps\<rparr>
          \<and> list_all R cs \<and> list_all P ps \<and> res_only X (fst (io_bind m f w))"
  proof (cases "fst (m w)")
    case (Inl e)
    then have "io_bind m f w = (Inl e, snd (m w))"
      by (cases "m w") (simp add: io_bind_def)
    with 1 Inl show ?thesis by auto
  next
    case (Inr x)
    then have eq: "io_bind m f w = f x (snd (m w))"
      by (cases "m w") (simp add: io_bind_def)
    from f [of x] obtain cs' ps' where 2:
      "snd (f x (snd (m w))) = (snd (m w))\<lparr>calls := calls (snd (m w)) @ cs', printed := printed (snd (m w)) @ ps'\<rparr>"
      "list_all R cs'" "list_all P ps'" "res_only X (fst (f x (snd (m w))))"
      unfolding does_def by blast
    show ?thesis
      apply (rule exI [where x = "cs @ cs'"])
      apply (rule exI [where x = "ps @ ps'"])
      using 1 2 by (simp add: eq)
  qed
qed

lemma does_except:
  assumes m: "does R P X' m" and h: "\<And>e. does R P X (handler e)"
    and x: "\<And>e. X' e \<Longrightarrow> \<not> catches e \<Longrightarrow> X e"
  shows "does R P X (io_except catches m handler)"
  unfolding does_def
proof
  fix w
  from m obtain cs ps where 1: "snd (m w) = w\<lparr>calls := calls w @ cs, printed := printed w @ ps\<rparr>"
    "list_all R cs" "list_all P ps" "res_only X' (fst (m w))"
    unfolding does_def by blast
  show "\<exists>cs ps. snd (io_except catches m handler w) = w\<lparr>calls := calls w @ cs, printed := printed w @ ps\<rparr>
          \<and> list_all R cs \<and> list_all P ps \<and> res_only X (fst (io_except catches m handler w))"
  proof (cases "fst (m w)")
    case (Inr y)
    then have "io_except catches m handler w = m w"
      by (cases "m w") (simp add: io_except_def)
    with 1 Inr show ?thesis by auto
  next
    case (Inl e)
    show ?thesis
    proof (cases "catches e")
      case False
      with Inl have "io_except catches m handler w = m w"
        by (cases "m w") (simp add: io_except_def)
      moreover from 1 Inl False x have "res_only X (fst (m w))" by simp
      ultimately show ?thesis using 1 by auto
    next
      case True
      with Inl have eq: "io_except catches m handler w = handler e (snd (m w))"
        by (cases "m w") (simp add: io_except_def)
      from h [of e] obtain cs' ps' where 2:
        "snd (handler e (snd (m w))) = (snd (m w))\<lparr>calls := calls (snd (m w)) @ cs', printed := printed (snd (m w)) @ ps'\<rparr>"
        "list_all R cs'" "list_all P ps'" "res_only X (fst (handler e (snd (m w))))"
        unfolding does_def by blast
      show ?thesis
        apply (rule exI [where x = "cs @ cs'"])
        apply (rule exI [where x = "ps @ ps'"])
        using 1 2 by (simp add: eq)
    qed
  qed
qed

lemma does_weaken:
  assumes "does R P X m" and "\<And>r. R r \<Longrightarrow> R' r" and "\<And>p. P p \<Longrightarrow> P' p" and "\<And>e. X e \<Longrightarrow> X' e"
  shows "does R' P' X' m"
  unfolding does_def
proof
  fix w
  from assms(1) obtain cs ps where 1: "snd (m w) = w\<lparr>calls := calls w @ cs, printed := printed w @ ps\<rparr>"
    "list_all R cs" "list_all P ps" "res_only X (fst (m w))"
    unfolding does_def by blast
  have "list_all R' cs" using 1(2) assms(2) by (auto simp: list_all_iff)
  moreover have "list_all P' ps" using 1(3) assms(3) by (auto simp: list_all_iff)
  moreover have "res_only X' (fst (m w))" using 1(4) assms(4) by (cases "fst (m w)") simp_all
  ultimately show "\<exists>cs ps. snd (m w) = w\<lparr>calls := calls w @ cs, printed := printed w @ ps\<rparr>
          \<and> list_all R' cs \<and> list_all P' ps \<and> res_only X' (fst (m w))"
    using 1(1) by blast
qed

section \<open>The remote call client: one request, three outcomes\<close>

lemma gql_calls:
  "snd (gql E tok q vars w) = w\<lparr>calls := calls w @ [request_of tok q vars]\<rparr>"
  by (simp add: gql_def split: option.splits)

lemma gql_decode_Inr:
  "gql_decode r = Inr p \<longleftrightarrow>
     status_code r = 200 \<and> (\<exists>kvs. resp_json r = Some (JDict kvs) \<and> ''errors'' \<notin> fst ` set kvs
        \<and> map_of kvs ''data'' = Some p)"
proof (cases "resp_json r")
  case None
  then show ?thesis by (simp add: gql_decode_def)
next
  case (Some data)
  then show ?thesis
    by (cases data) (auto simp: gql_decode_def res_bind_def split: option.splits)
qed

text \<open>
  C5, as the code has it.  A call of \<open>gql\<close> posts exactly one request (no retry) and
  changes nothing else.  It returns \<open>p\<close> exactly when the service answered with status
  200 and a JSON object that has no \<^verbatim>\<open>errors\<close> entry and whose \<^verbatim>\<open>data\<close> entry is \<open>p\<close>.
  On a status other than 200 it raises the \<^verbatim>\<open>RuntimeError\<close> that carries the status and
  the raw text; on status 200 and an \<^verbatim>\<open>errors\<close> entry it raises the \<^verbatim>\<open>RuntimeError\<close>
  that carries the entry.
\<close>

theorem gql_outcome:
  "snd (gql E tok q vars w) = w\<lparr>calls := calls w @ [request_of tok q vars]\<rparr>
   \<and> (fst (gql E tok q vars w) = Inr p \<longleftrightarrow>
        (\<exists>r kvs. post E (calls w) (request_of tok q vars) = Some r \<and> status_code r = 200
           \<and> resp_json r = Some (JDict kvs) \<and> ''errors'' \<notin> fst ` set kvs
           \<and> map_of kvs ''data'' = Some p))
   \<and> (\<forall>r. post E (calls w) (request_of tok q vars) = Some r \<and> status_code r \<noteq> 200 \<longrightarrow>
        fst (gql E tok q vars w) = Inl (RuntimeError (GraphQL_HTTP (status_code r) (resp_text r))))
   \<and> (\<forall>r kvs errs. post E (calls w) (request_of tok q vars) = Some r \<and> status_code r = 200
          \<and> resp_json r = Some (JDict kvs) \<and> map_of kvs ''errors'' = Some errs \<longrightarrow>
        fst (gql E tok q vars w) = Inl (RuntimeError (GraphQL_errors errs)))"
proof (intro conjI allI impI)
  show "snd (gql E tok q vars w) = w\<lparr>calls := calls w @ [request_of tok q vars]\<rparr>"
    by (rule gql_calls)
next
  show "fst (gql E tok q vars w) = Inr p \<longleftrightarrow>
        (\<exists>r kvs. post E (calls w) (request_of tok q vars) = Some r \<and> status_code r = 200
           \<and> resp_json r = Some (JDict kvs) \<and> ''errors'' \<notin> fst ` set kvs
           \<and> map_of kvs ''data'' = Some p)"
    by (cases "post E (calls w) (request_of tok q vars)") (auto simp: gql_def gql_decode_Inr)
next
  fix r assume "post E (calls w) (request_of tok q vars) = Some r \<and> status_code r \<noteq> 200"
  then show "fst (gql E tok q vars w)
               = Inl (RuntimeError (GraphQL_HTTP (status_code r) (resp_text r)))"
    by (simp add: gql_def gql_decode_def)
next
  fix r kvs errs
  assume "post E (calls w) (request_of tok q vars) = Some r \<and> status_code r = 200
          \<and> resp_json r = Some (JDict kvs) \<and> map_of kvs ''errors'' = Some errs"
  then show "fst (gql E tok q vars w) = Inl (RuntimeError (GraphQL_errors errs))"
    by (auto simp: gql_def gql_decode_def res_bind_def dest: map_of_SomeD
        intro: image_eqI [where x = "(''errors'', errs)"])
qed

text \<open>The three outcomes at three services, each with its one request.\<close>

theorem gql_outcome_witness:
  "gql (data_env (JInt 7)) ''t'' Q_user (JDict []) w0
     = (Inr (JInt 7), \<lparr>calls = [request_of ''t'' Q_user (JDict [])], printed = []\<rparr>)
   \<and> gql bad_gateway_env ''t'' Q_user (JDict []) w0
     = (Inl (RuntimeError (GraphQL_HTTP 502 ''Bad Gateway'')),
        \<lparr>calls = [request_of ''t'' Q_user (JDict [])], printed = []\<rparr>)
   \<and> gql errors_env ''t'' Q_user (JDict []) w0
     = (Inl (RuntimeError (GraphQL_errors (JList [JStr ''boom'']))),
        \<lparr>calls = [request_of ''t'' Q_user (JDict [])], printed = []\<rparr>)"
proof -
  let ?rq = "request_of ''t'' Q_user (JDict [])"
  have a: "post (data_env (JInt 7)) (calls w0) ?rq = Some (answer 200 [] (JDict [(''data'', JInt 7)]))"
    by (simp add: data_env_def env_of_def)
  have b: "post bad_gateway_env (calls w0) ?rq = Some (answer 502 ''Bad Gateway'' JNull)"
    by (simp add: bad_gateway_env_def env_of_def)
  have c: "post errors_env (calls w0) ?rq
             = Some (answer 200 [] (JDict [(''errors'', JList [JStr ''boom''])]))"
    by (simp add: errors_env_def env_of_def)
  from gql_outcome [of "data_env (JInt 7)" "''t''" Q_user "JDict []" w0 "JInt 7"] a
  have 1: "fst (gql (data_env (JInt 7)) ''t'' Q_user (JDict []) w0) = Inr (JInt 7)"
    by (simp add: answer_def)
  from gql_outcome [of bad_gateway_env "''t''" Q_user "JDict []" w0] b
  have 2: "fst (gql bad_gateway_env ''t'' Q_user (JDict []) w0)
             = Inl (RuntimeError (GraphQL_HTTP 502 ''Bad Gateway''))"
    by (simp add: answer_def)
  from gql_outcome [of errors_env "''t''" Q_user "JDict []" w0] c
  have 3: "fst (gql errors_env ''t'' Q_user (JDict []) w0)
             = Inl (RuntimeError (GraphQL_errors (JList [JStr ''boom''])))"
    by (simp add: answer_def)
  have s: "snd (gql E ''t'' Q_user (JDict []) w0)
             = \<lparr>calls = [request_of ''t'' Q_user (JDict [])], printed = []\<rparr>" for E
    by (simp add: gql_calls w0_def)
  show ?thesis
    using 1 2 3 s by (simp add: prod_eq_iff)
qed

text \<open>
  C5 as stated fails where the status is 200 and the body has no \<^verbatim>\<open>errors\<close> entry and
  no \<^verbatim>\<open>data\<close> entry either: line 29 raises \<^verbatim>\<open>KeyError\<close>, nothing is returned.
\<close>

theorem gql_counterexample:
  "status_code (answer 200 ''{}'' (JDict [])) = 200
   \<and> py_in ''errors'' (JDict []) = Inr False
   \<and> gql empty_body_env ''t'' Q_user (JDict []) w0
       = (Inl (KeyError ''data''),
          \<lparr>calls = [request_of ''t'' Q_user (JDict [])], printed = []\<rparr>)"
  by (simp add: gql_def gql_decode_def res_bind_def empty_body_env_def env_of_def answer_def
      w0_def)

section \<open>The field value setter and the creation of an issue\<close>

lemma submit_value_calls:
  "snd (submit_value E tok pid iid fid val w)
     = w\<lparr>calls := calls w @ [request_of tok M_updateProjectV2ItemFieldValue (update_input pid iid fid val)]\<rparr>"
  by (simp add: submit_value_def io_bind_def io_return_def gql_def split: option.splits sum.splits)

text \<open>
  C2.  For a field of kind \<^verbatim>\<open>NUMBER\<close>: when \<^verbatim>\<open>float\<close> parses the value, the call posts
  exactly one request, the update mutation that carries the parsed number, and prints
  nothing; when it does not, the call prints the warning on the diagnostic stream, posts
  nothing and returns.
\<close>

theorem update_field_number:
  "(\<forall>num. py_float E val = Some num \<longrightarrow>
      snd (update_field E tok pid iid fid (JStr ''NUMBER'') val opts w)
        = w\<lparr>calls := calls w @ [request_of tok M_updateProjectV2ItemFieldValue
              (update_input pid iid fid (JDict [(''number'', JFloat num)]))]\<rparr>)
   \<and> (py_float E val = None \<longrightarrow>
      update_field E tok pid iid fid (JStr ''NUMBER'') val opts w
        = (Inr (), w\<lparr>printed := printed w @ [Print Stderr (Warn_number_invalid val)]\<rparr>))"
  by (simp add: update_field_def submit_value_calls print_def)

theorem update_field_number_witness:
  "snd (update_field float_env ''t'' (JStr ''P'') (JStr ''I'') (JStr ''F'') (JStr ''NUMBER'') ''3.5'' JNull w0)
     = \<lparr>calls = [request_of ''t'' M_updateProjectV2ItemFieldValue
          (update_input (JStr ''P'') (JStr ''I'') (JStr ''F'') (JDict [(''number'', JFloat (Finite 7 (- 1)))]))],
        printed = []\<rparr>
   \<and> update_field float_env ''t'' (JStr ''P'') (JStr ''I'') (JStr ''F'') (JStr ''NUMBER'') ''abc'' JNull w0
     = (Inr (), \<lparr>calls = [], printed = [Print Stderr (Warn_number_invalid ''abc'')]\<rparr>)"
  using update_field_number [of float_env "''3.5''" "''t''" "JStr ''P''" "JStr ''I''" "JStr ''F''" JNull w0]
    update_field_number [of float_env "''abc''" "''t''" "JStr ''P''" "JStr ''I''" "JStr ''F''" JNull w0]
  by (simp add: float_env_def w0_def)

lemma named_node_dict:
  "named_node x \<Longrightarrow> \<exists>kvs n i. x = JDict kvs \<and> map_of kvs ''name'' = Some (JStr n) \<and> map_of kvs ''id'' = Some (JStr i)"
  by (cases x) (auto simp: named_node_def split: option.splits json.splits sum.splits)

lemma named_node_truthy: "named_node x \<Longrightarrow> truthy x"
  by (auto dest!: named_node_dict)

lemma name_is_iff:
  "name_is E v x \<longleftrightarrow> res_bind (py_index x ''name'') (py_lower E) = Inr (str_lower E v)"
proof (cases "py_index x ''name''")
  case (Inl e)
  then show ?thesis by (simp add: name_is_def res_bind_def)
next
  case (Inr j)
  then show ?thesis by (cases j) (simp_all add: name_is_def res_bind_def)
qed

lemma first_named_find:
  "list_all named_node xs \<Longrightarrow>
     first_named E v xs = Inr (case find (name_is E v) xs of None \<Rightarrow> JNull | Some x \<Rightarrow> x)"
proof (induction xs)
  case Nil
  show ?case by simp
next
  case (Cons x xs)
  then have "named_node x" by simp
  then obtain kvs n i where x: "x = JDict kvs" "map_of kvs ''name'' = Some (JStr n)"
    by (auto dest!: named_node_dict)
  with Cons show ?case
    by (simp add: name_is_def res_bind_def)
qed

text \<open>
  C3.  For a field of kind \<^verbatim>\<open>SINGLE_SELECT\<close>: without options (an empty list or
  \<^verbatim>\<open>None\<close>) the call prints a warning, posts nothing and returns.  With a list of
  options, each with a name and an identifier: when no option has a name equal to the
  value once \<^verbatim>\<open>lower()\<close> has folded the case of both, the call prints a warning, posts
  nothing and returns; otherwise it posts exactly one request, the update mutation that
  carries the identifier of the first such option.
\<close>

theorem update_field_single_select:
  "(\<not> truthy opts \<longrightarrow>
      update_field E tok pid iid fid (JStr ''SINGLE_SELECT'') val opts w
        = (Inr (), w\<lparr>printed := printed w @ [Print Stderr Warn_no_options]\<rparr>))
   \<and> (\<forall>os. opts = JList os \<and> os \<noteq> [] \<and> list_all named_node os \<longrightarrow>
        (case find (\<lambda>opt. \<exists>n. py_index opt ''name'' = Inr (JStr n)
                             \<and> str_lower E n = str_lower E val) os of
           None \<Rightarrow>
             update_field E tok pid iid fid (JStr ''SINGLE_SELECT'') val opts w
               = (Inr (), w\<lparr>printed := printed w @ [Print Stderr (Warn_unknown_option val)]\<rparr>)
         | Some opt \<Rightarrow>
             (\<exists>oid. py_index opt ''id'' = Inr oid
                \<and> snd (update_field E tok pid iid fid (JStr ''SINGLE_SELECT'') val opts w)
                    = w\<lparr>calls := calls w @ [request_of tok M_updateProjectV2ItemFieldValue
                          (update_input pid iid fid (JDict [(''singleSelectOptionId'', oid)]))]\<rparr>)))"
proof (intro conjI impI allI)
  assume "\<not> truthy opts"
  then show "update_field E tok pid iid fid (JStr ''SINGLE_SELECT'') val opts w
        = (Inr (), w\<lparr>printed := printed w @ [Print Stderr Warn_no_options]\<rparr>)"
    by (simp add: update_field_def print_def)
next
  fix os
  assume a: "opts = JList os \<and> os \<noteq> [] \<and> list_all named_node os"
  have eq: "(\<lambda>opt. \<exists>n. py_index opt ''name'' = Inr (JStr n) \<and> str_lower E n = str_lower E val)
              = name_is E val"
    by (rule ext) (auto simp: name_is_def split: sum.splits json.splits)
  from a have fn: "first_named E val os
                     = Inr (case find (name_is E val) os of None \<Rightarrow> JNull | Some x \<Rightarrow> x)"
    by (simp add: first_named_find)
  show "case find (\<lambda>opt. \<exists>n. py_index opt ''name'' = Inr (JStr n)
                             \<and> str_lower E n = str_lower E val) os of
           None \<Rightarrow>
             update_field E tok pid iid fid (JStr ''SINGLE_SELECT'') val opts w
               = (Inr (), w\<lparr>printed := printed w @ [Print Stderr (Warn_unknown_option val)]\<rparr>)
         | Some opt \<Rightarrow>
             (\<exists>oid. py_index opt ''id'' = Inr oid
                \<and> snd (update_field E tok pid iid fid (JStr ''SINGLE_SELECT'') val opts w)
                    = w\<lparr>calls := calls w @ [request_of tok M_updateProjectV2ItemFieldValue
                          (update_input pid iid fid (JDict [(''singleSelectOptionId'', oid)]))]\<rparr>)"
    unfolding eq
  proof (cases "find (name_is E val) os")
    case None
    with a fn show "case find (name_is E val) os of
           None \<Rightarrow>
             update_field E tok pid iid fid (JStr ''SINGLE_SELECT'') val opts w
               = (Inr (), w\<lparr>printed := printed w @ [Print Stderr (Warn_unknown_option val)]\<rparr>)
         | Some opt \<Rightarrow>
             (\<exists>oid. py_index opt ''id'' = Inr oid
                \<and> snd (update_field E tok pid iid fid (JStr ''SINGLE_SELECT'') val opts w)
                    = w\<lparr>calls := calls w @ [request_of tok M_updateProjectV2ItemFieldValue
                          (update_input pid iid fid (JDict [(''singleSelectOptionId'', oid)]))]\<rparr>)"
      by (simp add: update_field_def print_def io_bind_def io_of_def res_bind_def)
  next
    case (Some opt)
    then have "opt \<in> set os" by (auto simp: find_Some_iff)
    with a have nn: "named_node opt" by (auto simp: list_all_iff)
    then obtain kvs n i where o: "opt = JDict kvs" "map_of kvs ''id'' = Some (JStr i)"
      by (auto dest!: named_node_dict)
    from nn have t: "truthy opt" by (rule named_node_truthy)
    from a fn Some t o show "case find (name_is E val) os of
           None \<Rightarrow>
             update_field E tok pid iid fid (JStr ''SINGLE_SELECT'') val opts w
               = (Inr (), w\<lparr>printed := printed w @ [Print Stderr (Warn_unknown_option val)]\<rparr>)
         | Some opt \<Rightarrow>
             (\<exists>oid. py_index opt ''id'' = Inr oid
                \<and> snd (update_field E tok pid iid fid (JStr ''SINGLE_SELECT'') val opts w)
                    = w\<lparr>calls := calls w @ [request_of tok M_updateProjectV2ItemFieldValue
                          (update_input pid iid fid (JDict [(''singleSelectOptionId'', oid)]))]\<rparr>)"
      by (simp add: update_field_def io_bind_def io_of_def res_bind_def submit_value_calls)
  qed
qed

lemma ascii_lower_pangram:
  "ascii_lower ''THE FIVE BOXING WIZARDS JUMP QUICKLY'' = ''the five boxing wizards jump quickly''"
  "ascii_lower ''the five boxing wizards jump quickly'' = ''the five boxing wizards jump quickly''"
  "ascii_lower ''the five boxing wizards'' = ''the five boxing wizards''"
  "ascii_lower ''The Five Boxing Wizards Jump Quickly'' = ''the five boxing wizards jump quickly''"
  by (simp_all add: ascii_lower_def ascii_lower_char_def)

text \<open>
  The options of Scenario C: \<^verbatim>\<open>HIGH\<close> selects \<^verbatim>\<open>High\<close>, \<^verbatim>\<open>Hi\<close> selects nothing.  Among
  the options with long names, the value in capitals selects the first option that has
  all its words, which is written in small letters.
\<close>

theorem update_field_single_select_witness:
  "snd (update_field (data_env JNull) ''t'' (JStr ''P'') (JStr ''I'') (JStr ''F'') (JStr ''SINGLE_SELECT'') ''HIGH'' priority_options w0)
     = \<lparr>calls = [request_of ''t'' M_updateProjectV2ItemFieldValue
          (update_input (JStr ''P'') (JStr ''I'') (JStr ''F'') (JDict [(''singleSelectOptionId'', JStr ''o3'')]))],
        printed = []\<rparr>
   \<and> snd (update_field (data_env JNull) ''t'' (JStr ''P'') (JStr ''I'') (JStr ''F'') (JStr ''SINGLE_SELECT'')
            ''THE FIVE BOXING WIZARDS JUMP QUICKLY'' pangram_options w0)
     = \<lparr>calls = [request_of ''t'' M_updateProjectV2ItemFieldValue
          (update_input (JStr ''P'') (JStr ''I'') (JStr ''F'') (JDict [(''singleSelectOptionId'', JStr ''p2'')]))],
        printed = []\<rparr>
   \<and> update_field (data_env JNull) ''t'' (JStr ''P'') (JStr ''I'') (JStr ''F'') (JStr ''SINGLE_SELECT'') ''Hi'' priority_options w0
     = (Inr (), \<lparr>calls = [], printed = [Print Stderr (Warn_unknown_option ''Hi'')]\<rparr>)
   \<and> update_field (data_env JNull) ''t'' (JStr ''P'') (JStr ''I'') (JStr ''F'') (JStr ''SINGLE_SELECT'') ''Hi'' (JList []) w0
     = (Inr (), \<lparr>calls = [], printed = [Print Stderr Warn_no_options]\<rparr>)
   \<and> update_field (data_env JNull) ''t'' (JStr ''P'') (JStr ''I'') (JStr ''F'') (JStr ''SINGLE_SELECT'') ''Hi'' JNull w0
     = (Inr (), \<lparr>calls = [], printed = [Print Stderr Warn_no_options]\<rparr>)"
proof -
  let ?E = "data_env JNull"
  let ?is = "\<lambda>val opt. \<exists>n. py_index opt ''name'' = Inr (JStr n) \<and> str_lower ?E n = str_lower ?E val"
  have wf: "list_all named_node [JDict [(''id'', JStr ''o1''), (''name'', JStr ''Low'')],
      JDict [(''id'', JStr ''o2''), (''name'', JStr ''Medium'')],
      JDict [(''id'', JStr ''o3''), (''name'', JStr ''High'')]]"
    by (simp add: named_node_def)
  have wf': "list_all named_node
     [JDict [(''id'', JStr ''p1''), (''name'', JStr ''the five boxing wizards'')],
      JDict [(''id'', JStr ''p2''), (''name'', JStr ''the five boxing wizards jump quickly'')],
      JDict [(''id'', JStr ''p3''), (''name'', JStr ''The Five Boxing Wizards Jump Quickly'')]]"
    by (simp add: named_node_def)
  have f1: "find (?is ''HIGH'') [JDict [(''id'', JStr ''o1''), (''name'', JStr ''Low'')],
      JDict [(''id'', JStr ''o2''), (''name'', JStr ''Medium'')],
      JDict [(''id'', JStr ''o3''), (''name'', JStr ''High'')]] = Some (JDict [(''id'', JStr ''o3''), (''name'', JStr ''High'')])"
    by (simp add: ascii_lower_def ascii_lower_char_def)
  have f2: "find (?is ''Hi'') [JDict [(''id'', JStr ''o1''), (''name'', JStr ''Low'')],
      JDict [(''id'', JStr ''o2''), (''name'', JStr ''Medium'')],
      JDict [(''id'', JStr ''o3''), (''name'', JStr ''High'')]] = None"
    by (simp add: ascii_lower_def ascii_lower_char_def)
  have f3: "find (?is ''THE FIVE BOXING WIZARDS JUMP QUICKLY'')
     [JDict [(''id'', JStr ''p1''), (''name'', JStr ''the five boxing wizards'')],
      JDict [(''id'', JStr ''p2''), (''name'', JStr ''the five boxing wizards jump quickly'')],
      JDict [(''id'', JStr ''p3''), (''name'', JStr ''The Five Boxing Wizards Jump Quickly'')]]
      = Some (JDict [(''id'', JStr ''p2''), (''name'', JStr ''the five boxing wizards jump quickly'')])"
    by (simp add: ascii_lower_pangram)
  show ?thesis
    using update_field_single_select [of priority_options ?E "''t''" "JStr ''P''" "JStr ''I''" "JStr ''F''" "''HIGH''" w0]
      update_field_single_select [of pangram_options ?E "''t''" "JStr ''P''" "JStr ''I''" "JStr ''F''"
        "''THE FIVE BOXING WIZARDS JUMP QUICKLY''" w0]
      update_field_single_select [of priority_options ?E "''t''" "JStr ''P''" "JStr ''I''" "JStr ''F''" "''Hi''" w0]
      update_field_single_select [of "JList []" ?E "''t''" "JStr ''P''" "JStr ''I''" "JStr ''F''" "''Hi''" w0]
      update_field_single_select [of JNull ?E "''t''" "JStr ''P''" "JStr ''I''" "JStr ''F''" "''Hi''" w0]
      wf wf' f1 f2 f3
    by (simp add: priority_options_def pangram_options_def w0_def)
qed

lemma does_nothing_calls:
  "does (\<lambda>r. False) P X m \<Longrightarrow> calls (snd (m w)) = calls w"
  unfolding does_def
proof -
  assume "\<forall>w. \<exists>cs ps. snd (m w) = w\<lparr>calls := calls w @ cs, printed := printed w @ ps\<rparr>
            \<and> list_all (\<lambda>r. False) cs \<and> list_all P ps \<and> res_only X (fst (m w))"
  then obtain cs ps where "snd (m w) = w\<lparr>calls := calls w @ cs, printed := printed w @ ps\<rparr>"
    "list_all (\<lambda>r. False) cs" by blast
  then show ?thesis by (cases cs) simp_all
qed

lemma calls_bind_gql:
  assumes "\<And>d. does (\<lambda>r. False) (\<lambda>p. True) (\<lambda>e. True) (f d)"
  shows "calls (snd (io_bind (gql E tok q vars) f w)) = calls w @ [request_of tok q vars]"
proof (cases "fst (gql E tok q vars w)")
  case (Inl e)
  then show ?thesis
    using gql_calls [of E tok q vars w] by (cases "gql E tok q vars w") (simp add: io_bind_def)
next
  case (Inr d)
  then have "io_bind (gql E tok q vars) f w = f d (snd (gql E tok q vars w))"
    by (cases "gql E tok q vars w") (simp add: io_bind_def)
  then show ?thesis
    using does_nothing_calls [OF assms, of d "snd (gql E tok q vars w)"] gql_calls [of E tok q vars w]
    by simp
qed

lemma create_issue_calls:
  "calls (snd (create_issue E tok repo_id title body label_ids assignee_ids w))
     = calls w @ [request_of tok M_createIssue (issue_input repo_id title body label_ids assignee_ids)]"
  unfolding create_issue_def
  by (rule calls_bind_gql) (intro does_bind does_of does_print does_return; simp add: res_only_def split: sum.splits)

text \<open>
  C9.  \<^verbatim>\<open>create_issue\<close> posts exactly one request, the \<^verbatim>\<open>createIssue\<close> mutation, whose
  input has \<^verbatim>\<open>null\<close> under \<^verbatim>\<open>labelIds\<close> when the list of label identifiers is empty and
  the list itself otherwise, and the same under \<^verbatim>\<open>assigneeIds\<close> for the assignees.
\<close>

theorem create_issue_unset_lists:
  "\<exists>rq. calls (snd (create_issue E tok repo_id title body label_ids assignee_ids w)) = calls w @ [rq]
     \<and> req_query rq = M_createIssue
     \<and> res_bind (py_index (req_variables rq) ''input'') (\<lambda>i. py_index i ''labelIds'')
         = Inr (if label_ids = [] then JNull else JList label_ids)
     \<and> res_bind (py_index (req_variables rq) ''input'') (\<lambda>i. py_index i ''assigneeIds'')
         = Inr (if assignee_ids = [] then JNull else JList assignee_ids)"
  by (rule exI [where x = "request_of tok M_createIssue (issue_input repo_id title body label_ids assignee_ids)"])
     (simp add: create_issue_calls request_of_def issue_input_def res_bind_def list_or_None_def)

section \<open>The schema resolver: two probes, fields by name\<close>

lemma io_bind_assoc: "io_bind (io_bind m f) g = io_bind m (\<lambda>x. io_bind (f x) g)"
  by (rule ext) (simp add: io_bind_def split: prod.splits sum.splits)

lemma res_only_field_of_node: "res_only is_Exception (field_of_node node)"
  unfolding field_of_node_def
  by (auto intro!: res_only_bind res_only_py_get res_only_py_get_default)

lemma res_only_build_fields: "res_only is_Exception (build_fields m nodes)"
proof (induction nodes arbitrary: m)
  case Nil
  show ?case by simp
next
  case (Cons node nodes)
  show ?case
    using res_only_field_of_node [of node] Cons
    by (auto split: sum.splits option.splits)
qed

lemma does_board_fields:
  "does (\<lambda>r. False) (\<lambda>p. True) is_Exception (board_fields owner number proj place)"
  unfolding board_fields_def
  by (auto intro!: does_raise does_bind does_print does_of does_return res_only_bind
        res_only_py_index res_only_py_iter res_only_build_fields)

lemma board_of_error: "board_of d kind = Inl e \<Longrightarrow> e = AttributeError"
  by (cases d; cases "py_or (case d of JDict kvs \<Rightarrow> (case map_of kvs kind of None \<Rightarrow> JNull | Some v \<Rightarrow> v) | _ \<Rightarrow> JNull) (JDict [])")
     (auto simp: board_of_def res_bind_def py_get_def split: sum.splits)

lemma user_project_cases:
  "user_project E tok owner number w =
     ((case fst (gql E tok Q_user_project (project_vars owner number) w) of
         Inl e \<Rightarrow> if is_RuntimeError e then Inr JNull else Inl e
       | Inr d \<Rightarrow> board_of d ''user''),
      w\<lparr>calls := calls w @ [request_of tok Q_user_project (project_vars owner number)]\<rparr>)"
  using gql_calls [of E tok Q_user_project "project_vars owner number" w]
  by (cases "gql E tok Q_user_project (project_vars owner number) w")
     (auto simp: user_project_def io_except_def io_bind_def io_of_def io_return_def
        split: sum.splits dest: board_of_error)

lemma res_only_board_of: "res_only is_Exception (board_of d kind)"
  unfolding board_of_def by (intro res_only_bind res_only_py_get)

lemma resolver_calls:
  "calls (snd (get_project_and_fields E tok owner number w))
     = calls w @ (if user_lookup_empty E tok owner number w
                  then [request_of tok Q_user_project (project_vars owner number),
                        request_of tok Q_org_project (project_vars owner number)]
                  else [request_of tok Q_user_project (project_vars owner number)])"
proof -
  let ?w1 = "w\<lparr>calls := calls w @ [request_of tok Q_user_project (project_vars owner number)]\<rparr>"
  let ?r = "fst (user_project E tok owner number w)"
  have up: "user_project E tok owner number w = (?r, ?w1)"
    by (simp add: user_project_cases)
  have tail: "calls (snd (board_fields owner number proj place w')) = calls w'" for proj place w'
    by (rule does_nothing_calls [OF does_board_fields])
  show ?thesis
  proof (cases ?r)
    case (Inl e)
    then have ne: "\<not> user_lookup_empty E tok owner number w"
      by (auto simp: user_project_cases user_lookup_empty_def split: sum.splits if_splits)
    from Inl up have "get_project_and_fields E tok owner number w = (Inl e, ?w1)"
      by (simp add: get_project_and_fields_def io_bind_def)
    with ne show ?thesis by simp
  next
    case (Inr b)
    then have e: "user_lookup_empty E tok owner number w \<longleftrightarrow> \<not> truthy b"
      by (auto simp: user_project_cases user_lookup_empty_def split: sum.splits if_splits)
    show ?thesis
    proof (cases "truthy b")
      case True
      with Inr up have "get_project_and_fields E tok owner number w = board_fields owner number b ''user'' ?w1"
        by (simp add: get_project_and_fields_def io_bind_def)
      with True e show ?thesis by (simp add: tail)
    next
      case False
      with Inr up have "get_project_and_fields E tok owner number w
          = io_bind (gql E tok Q_org_project (project_vars owner number))
              (\<lambda>d. io_bind (io_of (board_of d ''organization''))
                 (\<lambda>proj. board_fields owner number proj ''org'')) ?w1"
        by (simp add: get_project_and_fields_def io_bind_def org_project_def split: prod.splits sum.splits)
      moreover have "calls (snd (io_bind (gql E tok Q_org_project (project_vars owner number))
              (\<lambda>d. io_bind (io_of (board_of d ''organization''))
                 (\<lambda>proj. board_fields owner number proj ''org'')) ?w1))
            = calls ?w1 @ [request_of tok Q_org_project (project_vars owner number)]"
        by (rule calls_bind_gql)
           (intro does_bind does_of does_weaken [OF does_board_fields]; simp add: res_only_def split: sum.splits)
      ultimately show ?thesis using False e by simp
    qed
  qed
qed

lemma resolver_after_user:
  assumes "user_lookup_empty E tok owner number w"
  shows "get_project_and_fields E tok owner number w =
       (case fst (gql E tok Q_org_project (project_vars owner number)
               (w\<lparr>calls := calls w @ [request_of tok Q_user_project (project_vars owner number)]\<rparr>)) of
          Inl e \<Rightarrow> (Inl e, w\<lparr>calls := calls w @ [request_of tok Q_user_project (project_vars owner number),
                                   request_of tok Q_org_project (project_vars owner number)]\<rparr>)
        | Inr d \<Rightarrow>
            (case board_of d ''organization'' of
               Inl e \<Rightarrow> (Inl e, w\<lparr>calls := calls w @ [request_of tok Q_user_project (project_vars owner number),
                                   request_of tok Q_org_project (project_vars owner number)]\<rparr>)
             | Inr proj \<Rightarrow> board_fields owner number proj ''org''
                 (w\<lparr>calls := calls w @ [request_of tok Q_user_project (project_vars owner number),
                                   request_of tok Q_org_project (project_vars owner number)]\<rparr>)))"
proof -
  let ?w1 = "w\<lparr>calls := calls w @ [request_of tok Q_user_project (project_vars owner number)]\<rparr>"
  from assms obtain b where "\<not> truthy b" "fst (user_project E tok owner number w) = Inr b"
    by (auto simp: user_project_cases user_lookup_empty_def split: sum.splits if_splits)
  then show ?thesis
    using gql_calls [of E tok Q_org_project "project_vars owner number" ?w1]
    by (cases "gql E tok Q_org_project (project_vars owner number) ?w1")
       (auto simp: get_project_and_fields_def org_project_def io_bind_def io_of_def user_project_cases
          split: sum.splits)
qed

text \<open>
  C1, as the code has it.  The resolver always posts the lookup under \<^verbatim>\<open>user\<close> first.
  When that lookup yields no board (\<open>user_lookup_empty\<close>) it posts the lookup under
  \<^verbatim>\<open>organization\<close> next and nothing after it; otherwise it posts nothing more.  When the
  lookup under \<^verbatim>\<open>user\<close> yields no board: an exception raised by the call under
  \<^verbatim>\<open>organization\<close> is the resolver's exception, and a payload of that call without a
  board makes the resolver raise the \<^verbatim>\<open>RuntimeError\<close> of line 85 (board not found).
\<close>

theorem resolver_probes:
  "calls (snd (get_project_and_fields E tok owner number w))
     = calls w @ (if user_lookup_empty E tok owner number w
                  then [request_of tok Q_user_project (project_vars owner number),
                        request_of tok Q_org_project (project_vars owner number)]
                  else [request_of tok Q_user_project (project_vars owner number)])
   \<and> (user_lookup_empty E tok owner number w \<longrightarrow>
        (\<forall>e. fst (gql E tok Q_org_project (project_vars owner number)
                      (w\<lparr>calls := calls w @ [request_of tok Q_user_project (project_vars owner number)]\<rparr>)) = Inl e
              \<longrightarrow> fst (get_project_and_fields E tok owner number w) = Inl e)
        \<and> (\<forall>d b. fst (gql E tok Q_org_project (project_vars owner number)
                      (w\<lparr>calls := calls w @ [request_of tok Q_user_project (project_vars owner number)]\<rparr>)) = Inr d
                  \<and> board_of d ''organization'' = Inr b \<and> \<not> truthy b
              \<longrightarrow> fst (get_project_and_fields E tok owner number w)
                    = Inl (RuntimeError (Project_not_found number owner))))"
proof (intro conjI impI allI)
  show "calls (snd (get_project_and_fields E tok owner number w))
     = calls w @ (if user_lookup_empty E tok owner number w
                  then [request_of tok Q_user_project (project_vars owner number),
                        request_of tok Q_org_project (project_vars owner number)]
                  else [request_of tok Q_user_project (project_vars owner number)])"
    by (rule resolver_calls)
next
  fix e
  assume "user_lookup_empty E tok owner number w"
    and "fst (gql E tok Q_org_project (project_vars owner number)
                      (w\<lparr>calls := calls w @ [request_of tok Q_user_project (project_vars owner number)]\<rparr>)) = Inl e"
  then show "fst (get_project_and_fields E tok owner number w) = Inl e"
    by (simp add: resolver_after_user)
next
  fix d b
  assume "user_lookup_empty E tok owner number w"
    and "fst (gql E tok Q_org_project (project_vars owner number)
                      (w\<lparr>calls := calls w @ [request_of tok Q_user_project (project_vars owner number)]\<rparr>)) = Inr d
                  \<and> board_of d ''organization'' = Inr b \<and> \<not> truthy b"
  then show "fst (get_project_and_fields E tok owner number w)
                    = Inl (RuntimeError (Project_not_found number owner))"
    by (simp add: resolver_after_user board_fields_def io_raise_def)
qed

lemma gql_data_env:
  "gql (data_env d) tok q vars w = (Inr d, w\<lparr>calls := calls w @ [request_of tok q vars]\<rparr>)"
  by (simp add: gql_def gql_decode_def data_env_def env_of_def answer_def res_bind_def)

text \<open>A service whose payload is empty for both lookups: two requests, then not found.\<close>

theorem resolver_probes_witness:
  "get_project_and_fields (data_env (JDict [])) ''t'' ''octo'' 1 w0
     = (Inl (RuntimeError (Project_not_found 1 ''octo'')),
        \<lparr>calls = [request_of ''t'' Q_user_project (project_vars ''octo'' 1),
                  request_of ''t'' Q_org_project (project_vars ''octo'' 1)], printed = []\<rparr>)"
proof -
  have e: "user_lookup_empty (data_env (JDict [])) ''t'' ''octo'' 1 w0"
    by (simp add: user_lookup_empty_def gql_data_env board_of_def res_bind_def py_get_def py_or_def)
  have b: "board_of (JDict []) ''organization'' = Inr JNull"
    by (simp add: board_of_def res_bind_def py_get_def py_or_def)
  have p: "printed (snd (get_project_and_fields (data_env (JDict [])) ''t'' ''octo'' 1 w0)) = []"
    using e by (simp add: resolver_after_user gql_data_env b board_fields_def io_raise_def w0_def)
  from resolver_probes [of "data_env (JDict [])" "''t''" "''octo''" 1 w0] e b p
  show ?thesis
    by (simp add: gql_data_env prod_eq_iff w0_def world.equality)
qed

text \<open>
  C1 as stated fails where the service answers the lookup under \<^verbatim>\<open>organization\<close> with
  an error entry: neither lookup yields a board, and the resolver raises the
  \<^verbatim>\<open>RuntimeError\<close> of line 28 (GraphQL errors), not the one of line 85.
\<close>

theorem resolver_counterexample:
  "user_lookup_empty not_found_env ''t'' ''octo'' 1 w0
   \<and> fst (get_project_and_fields not_found_env ''t'' ''octo'' 1 w0)
       = Inl (RuntimeError (GraphQL_errors (JList [JDict [(''type'', JStr ''NOT_FOUND'')]])))
   \<and> fst (get_project_and_fields not_found_env ''t'' ''octo'' 1 w0)
       \<noteq> Inl (RuntimeError (Project_not_found 1 ''octo''))"
proof -
  have g: "fst (gql not_found_env ''t'' q vars w)
             = Inl (RuntimeError (GraphQL_errors (JList [JDict [(''type'', JStr ''NOT_FOUND'')]])))" for q vars w
    by (simp add: gql_def gql_decode_def not_found_env_def env_of_def answer_def res_bind_def)
  have e: "user_lookup_empty not_found_env ''t'' ''octo'' 1 w0"
    by (simp add: user_lookup_empty_def g)
  then show ?thesis
    by (simp add: resolver_after_user g)
qed


lemma find_snoc:
  "find P (xs @ [x]) = (case find P xs of None \<Rightarrow> if P x then Some x else None | Some y \<Rightarrow> Some y)"
  by (induction xs) simp_all

lemma field_of_node_None: "field_of_node node = Inr None \<Longrightarrow> \<not> bears_name k node"
  by (cases node)
     (auto simp: field_of_node_def bears_name_def res_bind_def py_get_def
        split: if_splits option.splits)

lemma field_of_node_Some:
  "field_of_node node = Inr (Some (k, f)) \<Longrightarrow>
     (bears_name k' node \<longleftrightarrow> k' = k)
     \<and> (\<exists>fid dt tn os.
           py_get node ''id'' = Inr fid \<and> py_get node ''dataType'' = Inr dt
         \<and> py_get node ''__typename'' = Inr tn
         \<and> py_get_default node ''options'' (JList []) = Inr os
         \<and> f = \<lparr>f_id = fid, f_name = k, f_dataType = dt,
                 f_options = (if tn = JStr ''ProjectV2SingleSelectField''
                              then Some (py_or os (JList [])) else None)\<rparr>)"
  by (cases node)
     (auto simp: field_of_node_def bears_name_def res_bind_def py_get_def
        split: if_splits option.splits)

lemma build_fields_last:
  "build_fields m0 nodes = Inr m \<Longrightarrow>
     (case find (bears_name k) (rev nodes) of
        None \<Rightarrow> m k = m0 k
      | Some node \<Rightarrow> \<exists>f. field_of_node node = Inr (Some (k, f)) \<and> m k = Some f)"
proof (induction nodes arbitrary: m0)
  case Nil
  then show ?case by simp
next
  case (Cons x nodes)
  show ?case
  proof (cases "field_of_node x")
    case (Inl e)
    with Cons.prems show ?thesis by simp
  next
    case (Inr r)
    show ?thesis
    proof (cases r)
      case None
      with Inr Cons.prems have b: "build_fields m0 nodes = Inr m" by simp
      from Inr None have "\<not> bears_name k x" by (simp add: field_of_node_None)
      with Cons.IH [OF b] show ?thesis
        by (simp add: find_snoc split: option.splits)
    next
      case (Some kf)
      obtain k' f' where kf: "kf = (k', f')" by (cases kf)
      with Inr Some Cons.prems have b: "build_fields (m0(k' \<mapsto> f')) nodes = Inr m" by simp
      from Inr Some kf have x: "field_of_node x = Inr (Some (k', f'))" by simp
      from field_of_node_Some [OF x, of k] have bn: "bears_name k x \<longleftrightarrow> k = k'" by simp
      show ?thesis
      proof (cases "find (bears_name k) (rev nodes)")
        case (Some node)
        with Cons.IH [OF b] show ?thesis by (simp add: find_snoc)
      next
        case None
        with Cons.IH [OF b] have mk: "m k = (m0(k' \<mapsto> f')) k" by simp
        show ?thesis
        proof (cases "k = k'")
          case True
          with None mk bn x show ?thesis by (simp add: find_snoc)
        next
          case False
          with None mk bn show ?thesis by (simp add: find_snoc)
        qed
      qed
    qed
  qed
qed

lemma board_fields_Inr:
  "board_fields owner number proj place w = (Inr P, w') \<Longrightarrow>
     \<exists>fs ns nodes. truthy proj \<and> py_index proj ''fields'' = Inr fs \<and> py_index fs ''nodes'' = Inr ns
        \<and> py_iter ns = Inr nodes \<and> build_fields Map.empty nodes = Inr (p_fields P)
        \<and> py_index proj ''id'' = Inr (p_id P)"
  by (auto simp: board_fields_def io_raise_def io_bind_def io_of_def io_return_def print_def
       res_bind_def split: if_splits sum.splits)

lemma resolver_Inr:
  "get_project_and_fields E tok owner number w = (Inr P, w') \<Longrightarrow>
     \<exists>proj place w1.
        (fst (user_project E tok owner number w) = Inr proj
         \<or> fst (org_project E tok owner number (snd (user_project E tok owner number w))) = Inr proj)
        \<and> board_fields owner number proj place w1 = (Inr P, w')"
  by (auto simp: get_project_and_fields_def io_bind_def split: if_splits sum.splits prod.splits)

text \<open>
  C8.  When the resolver returns, there is a board \<open>proj\<close>, returned by the lookup under
  \<^verbatim>\<open>user\<close> or by the one under \<^verbatim>\<open>organization\<close>, with the nodes
  \<^verbatim>\<open>proj["fields"]["nodes"]\<close>, and the returned map is this, at every key \<open>k\<close>.  When no
  node bears the name \<open>k\<close>, the map has nothing under \<open>k\<close>.  Otherwise, for the last node
  in the returned order that bears the name \<open>k\<close>, the map has under \<open>k\<close> the field made of
  what that node has under \<^verbatim>\<open>id\<close> and \<^verbatim>\<open>dataType\<close> and of the name \<open>k\<close>; its option list
  is what the node has under \<^verbatim>\<open>options\<close> (the empty list when the node has none, or has
  \<^verbatim>\<open>null\<close>) when the \<^verbatim>\<open>__typename\<close> of the node is \<^verbatim>\<open>ProjectV2SingleSelectField\<close>, and
  is absent for every other kind.
\<close>

theorem resolver_fields:
  "get_project_and_fields E tok owner number w = (Inr P, w') \<Longrightarrow>
     \<exists>proj fs ns nodes.
        (fst (user_project E tok owner number w) = Inr proj
         \<or> fst (org_project E tok owner number (snd (user_project E tok owner number w))) = Inr proj)
        \<and> py_index proj ''fields'' = Inr fs \<and> py_index fs ''nodes'' = Inr ns \<and> py_iter ns = Inr nodes
        \<and> (\<forall>k. case find (bears_name k) (rev nodes) of
                  None \<Rightarrow> p_fields P k = None
                | Some node \<Rightarrow>
                    (\<exists>fid dt tn os.
                        py_get node ''id'' = Inr fid \<and> py_get node ''dataType'' = Inr dt
                      \<and> py_get node ''__typename'' = Inr tn
                      \<and> py_get_default node ''options'' (JList []) = Inr os
                      \<and> p_fields P k
                          = Some \<lparr>f_id = fid, f_name = k, f_dataType = dt,
                                  f_options = (if tn = JStr ''ProjectV2SingleSelectField''
                                               then Some (py_or os (JList [])) else None)\<rparr>))"
proof -
  assume "get_project_and_fields E tok owner number w = (Inr P, w')"
  then obtain proj place w1 where p: "fst (user_project E tok owner number w) = Inr proj
         \<or> fst (org_project E tok owner number (snd (user_project E tok owner number w))) = Inr proj"
    and "board_fields owner number proj place w1 = (Inr P, w')"
    by (blast dest: resolver_Inr)
  then obtain fs ns nodes where b: "py_index proj ''fields'' = Inr fs" "py_index fs ''nodes'' = Inr ns"
    "py_iter ns = Inr nodes" "build_fields Map.empty nodes = Inr (p_fields P)"
    by (auto dest: board_fields_Inr)
  have "case find (bears_name k) (rev nodes) of
                  None \<Rightarrow> p_fields P k = None
                | Some node \<Rightarrow>
                    (\<exists>fid dt tn os.
                        py_get node ''id'' = Inr fid \<and> py_get node ''dataType'' = Inr dt
                      \<and> py_get node ''__typename'' = Inr tn
                      \<and> py_get_default node ''options'' (JList []) = Inr os
                      \<and> p_fields P k
                          = Some \<lparr>f_id = fid, f_name = k, f_dataType = dt,
                                  f_options = (if tn = JStr ''ProjectV2SingleSelectField''
                                               then Some (py_or os (JList [])) else None)\<rparr>)" for k
  proof (cases "find (bears_name k) (rev nodes)")
    case None
    with build_fields_last [OF b(4), of k] show ?thesis by simp
  next
    case (Some node)
    with build_fields_last [OF b(4), of k] obtain f where
      f: "field_of_node node = Inr (Some (k, f))" and m: "p_fields P k = Some f" by auto
    from field_of_node_Some [OF f, of k] m Some show ?thesis by auto
  qed
  with p b(1-3) show ?thesis by blast
qed

lemma board_env_returns:
  "\<exists>P w'. get_project_and_fields board_env ''t'' ''octo'' 1 w0 = (Inr P, w')"
  by (simp add: get_project_and_fields_def user_project_def io_except_def io_bind_def io_of_def
      board_env_def board_nodes_def gql_data_env board_of_def res_bind_def py_get_def py_or_def
      board_fields_def print_def field_of_node_def io_return_def w0_def)

lemma board_env_probes:
  "fst (user_project board_env ''t'' ''octo'' 1 w)
     = Inr (JDict [(''id'', JStr ''PVT_1''), (''fields'', JDict [(''nodes'', JList board_nodes)])])"
  "fst (org_project board_env ''t'' ''octo'' 1 w) = Inr JNull"
  by (simp_all add: user_project_def org_project_def io_except_def io_bind_def io_of_def
      board_env_def gql_data_env board_of_def res_bind_def py_get_def py_or_def)

text \<open>At \<open>board_env\<close>: the second \<^verbatim>\<open>Status\<close> node is the one kept, without options;
  \<^verbatim>\<open>Priority\<close> is kept with its two options; the name is matched exactly (\<^verbatim>\<open>status\<close> is
  no key), and the node without a name is under no key.\<close>

theorem resolver_fields_witness:
  "(case fst (get_project_and_fields board_env ''t'' ''octo'' 1 w0) of
      Inl e \<Rightarrow> False
    | Inr P \<Rightarrow>
        p_fields P (JStr ''Status'')
          = Some \<lparr>f_id = JStr ''F3'', f_name = JStr ''Status'', f_dataType = JStr ''TEXT'',
                  f_options = None\<rparr>
        \<and> p_fields P (JStr ''Priority'')
          = Some \<lparr>f_id = JStr ''F5'', f_name = JStr ''Priority'',
                  f_dataType = JStr ''SINGLE_SELECT'',
                  f_options = Some (JList [JDict [(''id'', JStr ''o7''), (''name'', JStr ''Low'')],
                                           JDict [(''id'', JStr ''o8''), (''name'', JStr ''High'')]])\<rparr>
        \<and> p_fields P (JStr ''Points'')
          = Some \<lparr>f_id = JStr ''F2'', f_name = JStr ''Points'', f_dataType = JStr ''NUMBER'',
                  f_options = None\<rparr>
        \<and> p_fields P (JStr ''status'') = None
        \<and> p_fields P JNull = None)"
proof -
  from board_env_returns obtain P w' where
    r: "get_project_and_fields board_env ''t'' ''octo'' 1 w0 = (Inr P, w')" by blast
  from resolver_fields [OF r] obtain proj fs ns nodes where
    p: "fst (user_project board_env ''t'' ''octo'' 1 w0) = Inr proj
         \<or> fst (org_project board_env ''t'' ''octo'' 1 (snd (user_project board_env ''t'' ''octo'' 1 w0))) = Inr proj"
    and f: "py_index proj ''fields'' = Inr fs" and n: "py_index fs ''nodes'' = Inr ns"
    and i: "py_iter ns = Inr nodes"
    and m: "\<And>k. case find (bears_name k) (rev nodes) of
                  None \<Rightarrow> p_fields P k = None
                | Some node \<Rightarrow>
                    (\<exists>fid dt tn os.
                        py_get node ''id'' = Inr fid \<and> py_get node ''dataType'' = Inr dt
                      \<and> py_get node ''__typename'' = Inr tn
                      \<and> py_get_default node ''options'' (JList []) = Inr os
                      \<and> p_fields P k
                          = Some \<lparr>f_id = fid, f_name = k, f_dataType = dt,
                                  f_options = (if tn = JStr ''ProjectV2SingleSelectField''
                                               then Some (py_or os (JList [])) else None)\<rparr>)"
    by blast
  from p f have "proj = JDict [(''id'', JStr ''PVT_1''), (''fields'', JDict [(''nodes'', JList board_nodes)])]"
    by (auto simp: board_env_probes)
  with f n i have nodes: "nodes = board_nodes" by auto
  have 1: "p_fields P (JStr ''Status'')
          = Some \<lparr>f_id = JStr ''F3'', f_name = JStr ''Status'', f_dataType = JStr ''TEXT'',
                  f_options = None\<rparr>"
    using m [of "JStr ''Status''"] unfolding nodes
    by (simp add: board_nodes_def bears_name_def py_get_def)
  have 2: "p_fields P (JStr ''Priority'')
          = Some \<lparr>f_id = JStr ''F5'', f_name = JStr ''Priority'',
                  f_dataType = JStr ''SINGLE_SELECT'',
                  f_options = Some (JList [JDict [(''id'', JStr ''o7''), (''name'', JStr ''Low'')],
                                           JDict [(''id'', JStr ''o8''), (''name'', JStr ''High'')]])\<rparr>"
    using m [of "JStr ''Priority''"] unfolding nodes
    by (simp add: board_nodes_def bears_name_def py_get_def py_or_def)
  have 3: "p_fields P (JStr ''Points'')
          = Some \<lparr>f_id = JStr ''F2'', f_name = JStr ''Points'', f_dataType = JStr ''NUMBER'',
                  f_options = None\<rparr>"
    using m [of "JStr ''Points''"] unfolding nodes
    by (simp add: board_nodes_def bears_name_def py_get_def)
  have 4: "p_fields P (JStr ''status'') = None"
    using m [of "JStr ''status''"] unfolding nodes
    by (simp add: board_nodes_def bears_name_def py_get_def)
  have 5: "p_fields P JNull = None"
    using m [of JNull] unfolding nodes
    by (simp add: board_nodes_def bears_name_def py_get_def)
  from 1 2 3 4 5 show ?thesis by (simp add: r)
qed

section \<open>The row driver: which columns are set, which failures are caught\<close>

lemma does_new_calls:
  assumes "does R P X m"
  shows "list_all R (drop (length (calls w)) (calls (snd (m w))))
       \<and> list_all P (drop (length (printed w)) (printed (snd (m w))))
       \<and> res_only X (fst (m w))"
proof -
  from assms obtain cs ps where "snd (m w) = w\<lparr>calls := calls w @ cs, printed := printed w @ ps\<rparr>"
    "list_all R cs" "list_all P ps" "res_only X (fst (m w))"
    unfolding does_def by blast
  then show ?thesis by simp
qed

lemma does_never_raises: "does R P (\<lambda>e. False) m \<Longrightarrow> fst (m w) = Inr ()"
  using does_new_calls [of R P "\<lambda>e. False" m w] by (cases "fst (m w)") simp_all

lemma does_submit_value:
  "does (\<lambda>rq. \<exists>val. rq = request_of tok M_updateProjectV2ItemFieldValue (update_input pid iid fid val))
        (\<lambda>ev. \<not> is_label_warning ev) is_Exception
        (submit_value E tok pid iid fid val)"
  unfolding submit_value_def
  by (intro does_bind does_gql does_return) auto

lemma does_update_field:
  "does (\<lambda>rq. \<exists>val. rq = request_of tok M_updateProjectV2ItemFieldValue (update_input pid iid fid val))
        (\<lambda>ev. \<not> is_label_warning ev) is_Exception
        (update_field E tok pid iid fid data_type v opts)"
proof -
  have p: "does R (\<lambda>ev. \<not> is_label_warning ev) X (print Stderr m)"
    if "\<And>ns. m \<noteq> Warn_labels_missing ns" for R X m
    using that by (intro does_print) (auto simp: is_label_warning_def split: message.splits)
  have sel: "does (\<lambda>rq. \<exists>val. rq = request_of tok M_updateProjectV2ItemFieldValue (update_input pid iid fid val))
        (\<lambda>ev. \<not> is_label_warning ev) is_Exception
        (io_bind (io_of (res_bind (py_iter opts) (first_named E v))) (\<lambda>opt.
              if \<not> truthy opt then print Stderr (Warn_unknown_option v)
              else
                io_bind (io_of (py_index opt ''id'')) (\<lambda>oid.
                submit_value E tok pid iid fid
                  (JDict [(''singleSelectOptionId'', oid)]))))"
    by (intro does_bind does_of res_only_bind res_only_py_iter res_only_first_named)
       (auto intro!: p does_bind does_of res_only_py_index does_submit_value)
  show ?thesis
    unfolding update_field_def
    by (auto intro!: does_submit_value p sel split: option.splits)
qed

lemma does_set_field:
  "does (\<lambda>rq. \<exists>val. rq = request_of tok M_updateProjectV2ItemFieldValue (update_input pid iid (f_id fld) val))
        (\<lambda>ev. \<not> is_label_warning ev) (\<lambda>e. False)
        (set_field E tok pid iid fld c v)"
  unfolding set_field_def
  by (rule does_except [OF does_update_field]) (auto intro!: does_print simp: is_label_warning_def)

lemma reserved_set:
  "set reserved = {''Title'', ''title'', ''Body'', ''body'', ''Labels'', ''labels'',
                   ''Assignees'', ''assignees''}"
  by (simp add: reserved_def)

lemma eligible_columns_Cons:
  "eligible_columns E pf ((c, v) # cols) =
     (case v of None \<Rightarrow> eligible_columns E pf cols
      | Some s \<Rightarrow> if c \<in> set reserved \<or> str_strip E s = [] then eligible_columns E pf cols
          else (case pf (JStr c) of None \<Rightarrow> eligible_columns E pf cols
                | Some fld \<Rightarrow> (fld, c, s) # eligible_columns E pf cols))"
  by (simp add: eligible_columns_def List.map_filter_simps split: option.splits)

lemma eligible_columns_Nil: "eligible_columns E pf [] = []"
  by (simp add: eligible_columns_def List.map_filter_simps)

lemma eligible_columns_iff:
  "(fld, c, s) \<in> set (eligible_columns E pf cols) \<longleftrightarrow>
     (c, Some s) \<in> set cols \<and> c \<notin> set reserved \<and> str_strip E s \<noteq> [] \<and> pf (JStr c) = Some fld"
proof (induction cols)
  case Nil
  show ?case by (simp add: eligible_columns_Nil)
next
  case (Cons cv cols)
  obtain c' v' where cv: "cv = (c', v')" by (cases cv)
  show ?case unfolding cv eligible_columns_Cons using Cons
    by (cases v'; cases "pf (JStr c')") auto
qed

lemma set_fields_eq_set_all:
  "set_fields E tok pid iid pf cols = set_all E tok pid iid (eligible_columns E pf cols)"
proof (induction cols)
  case Nil
  show ?case by (simp add: eligible_columns_Nil)
next
  case (Cons cv cols)
  obtain c v where cv: "cv = (c, v)" by (cases cv)
  show ?case unfolding cv eligible_columns_Cons using Cons
    by (cases v; cases "pf (JStr c)") simp_all
qed

lemma does_set_all:
  "does (\<lambda>rq. \<exists>fld c s val. (fld, c, s) \<in> set xs
            \<and> rq = request_of tok M_updateProjectV2ItemFieldValue (update_input pid iid (f_id fld) val))
        (\<lambda>ev. \<not> is_label_warning ev) (\<lambda>e. False)
        (set_all E tok pid iid xs)"
proof (induction xs)
  case Nil
  show ?case by (simp add: does_return)
next
  case (Cons x xs)
  obtain fld c s where x: "x = (fld, c, s)" by (cases x)
  have 1: "does (\<lambda>rq. \<exists>fld' c' s' val. (fld', c', s') \<in> set ((fld, c, s) # xs)
            \<and> rq = request_of tok M_updateProjectV2ItemFieldValue (update_input pid iid (f_id fld') val))
        (\<lambda>ev. \<not> is_label_warning ev) (\<lambda>e. False) (set_field E tok pid iid fld c s)"
    by (rule does_weaken [OF does_set_field]) auto
  have 2: "does (\<lambda>rq. \<exists>fld' c' s' val. (fld', c', s') \<in> set ((fld, c, s) # xs)
            \<and> rq = request_of tok M_updateProjectV2ItemFieldValue (update_input pid iid (f_id fld') val))
        (\<lambda>ev. \<not> is_label_warning ev) (\<lambda>e. False) (set_all E tok pid iid xs)"
    by (rule does_weaken [OF Cons]) auto
  show ?case unfolding x set_all.simps
    by (rule does_bind [OF 1]) (rule 2)
qed

text \<open>
  C6.  The loop over the columns of a record is the sequence of \<open>set_field\<close> calls on the
  eligible columns: those whose name is not one of the eight reserved names, whose value
  is there and is not empty once \<^verbatim>\<open>strip()\<close> has removed the white space around it, and
  whose name is exactly the name of a field of the map.  A column that is not eligible
  changes nothing: the loop with it is the loop without it, so no warning is printed and
  no request is posted for it.  Every request the loop posts is the update mutation for
  the field of an eligible column.
\<close>

theorem set_fields_only_matching_columns:
  "set_fields E tok pid iid pf cols = set_all E tok pid iid (eligible_columns E pf cols)
   \<and> (\<forall>fld c s. (fld, c, s) \<in> set (eligible_columns E pf cols) \<longleftrightarrow>
         (c, Some s) \<in> set cols
         \<and> c \<notin> {''Title'', ''title'', ''Body'', ''body'', ''Labels'', ''labels'',
                    ''Assignees'', ''assignees''}
         \<and> str_strip E s \<noteq> [] \<and> pf (JStr c) = Some fld)
   \<and> (\<forall>c v. c \<in> {''Title'', ''title'', ''Body'', ''body'', ''Labels'', ''labels'',
                    ''Assignees'', ''assignees''}
             \<or> (\<forall>s. v = Some s \<longrightarrow> str_strip E s = []) \<or> pf (JStr c) = None \<longrightarrow>
         set_fields E tok pid iid pf ((c, v) # cols) = set_fields E tok pid iid pf cols)
   \<and> (\<forall>rq \<in> set (drop (length (calls w)) (calls (snd (set_fields E tok pid iid pf cols w)))).
         \<exists>fld c s val. (fld, c, s) \<in> set (eligible_columns E pf cols)
           \<and> rq = request_of tok M_updateProjectV2ItemFieldValue (update_input pid iid (f_id fld) val))"
proof (intro conjI allI impI)
  show "set_fields E tok pid iid pf cols = set_all E tok pid iid (eligible_columns E pf cols)"
    by (rule set_fields_eq_set_all)
next
  fix fld c s
  show "(fld, c, s) \<in> set (eligible_columns E pf cols) \<longleftrightarrow>
         (c, Some s) \<in> set cols
         \<and> c \<notin> {''Title'', ''title'', ''Body'', ''body'', ''Labels'', ''labels'',
                    ''Assignees'', ''assignees''}
         \<and> str_strip E s \<noteq> [] \<and> pf (JStr c) = Some fld"
    unfolding reserved_set [symmetric] by (rule eligible_columns_iff)
next
  fix c v
  assume "c \<in> {''Title'', ''title'', ''Body'', ''body'', ''Labels'', ''labels'',
                    ''Assignees'', ''assignees''}
             \<or> (\<forall>s. v = Some s \<longrightarrow> str_strip E s = []) \<or> pf (JStr c) = None"
  then have "c \<in> set reserved \<or> (\<forall>s. v = Some s \<longrightarrow> str_strip E s = []) \<or> pf (JStr c) = None"
    unfolding reserved_set .
  then show "set_fields E tok pid iid pf ((c, v) # cols) = set_fields E tok pid iid pf cols"
    by (cases v) auto
next
  show "\<forall>rq \<in> set (drop (length (calls w)) (calls (snd (set_fields E tok pid iid pf cols w)))).
         \<exists>fld c s val. (fld, c, s) \<in> set (eligible_columns E pf cols)
           \<and> rq = request_of tok M_updateProjectV2ItemFieldValue (update_input pid iid (f_id fld) val)"
    using does_new_calls [OF does_set_all [of "eligible_columns E pf cols" tok pid iid E], of w]
    by (simp add: set_fields_eq_set_all list_all_iff)
qed

lemma ascii_strip_examples:
  "ascii_strip '' hello '' = ''hello''" "ascii_strip ''hello'' = ''hello''"
  "ascii_strip ''x'' = ''x''" "ascii_strip ''y'' = ''y''" "ascii_strip ''  '' = []"
  "ascii_strip ''abc'' = ''abc''" "ascii_strip ''n'' = ''n''"
  by (simp_all add: ascii_strip_def ascii_space_def)

lemma example_eligible:
  "str_strip E = ascii_strip \<Longrightarrow>
   eligible_columns E example_fields example_row = [(text_field ''F1'' ''Notes'', ''Notes'', '' hello '')]"
  by (simp add: eligible_columns_Cons eligible_columns_Nil example_fields_def example_row_def
      reserved_def ascii_strip_examples)

text \<open>Of the seven columns of \<open>example_row\<close> only \<^verbatim>\<open>Notes\<close> is eligible: \<^verbatim>\<open>Title\<close> is a
  field but reserved, \<^verbatim>\<open>notes\<close> differs in case, \<^verbatim>\<open>Points\<close> is blank.  The value is
  submitted without the white space around it.\<close>

theorem set_fields_only_matching_columns_witness:
  "set_fields (data_env JNull) ''t'' (JStr ''PVT_1'') (JStr ''I'') example_fields example_row w0
     = (Inr (), \<lparr>calls = [request_of ''t'' M_updateProjectV2ItemFieldValue
          (update_input (JStr ''PVT_1'') (JStr ''I'') (JStr ''F1'') (JDict [(''text'', JStr ''hello'')]))],
        printed = []\<rparr>)
   \<and> eligible_columns (data_env JNull) example_fields example_row
     = [(text_field ''F1'' ''Notes'', ''Notes'', '' hello '')]"
  using set_fields_only_matching_columns
    [of "data_env JNull" "''t''" "JStr ''PVT_1''" "JStr ''I''" example_fields example_row w0]
  by (simp add: example_eligible set_field_def update_field_def text_field_def io_except_def
      submit_value_def io_bind_def io_return_def gql_data_env options_of_def ascii_strip_examples
      w0_def)

lemma set_fields_never_raises: "fst (set_fields E tok pid iid pf cols w) = Inr ()"
  unfolding set_fields_eq_set_all by (rule does_never_raises [OF does_set_all])

lemma update_field_raises_Exception:
  "update_field E tok pid iid fid dt v opts w = (Inl e, w1) \<Longrightarrow> is_Exception e"
  using does_new_calls [OF does_update_field [of tok pid iid fid E dt v opts], of w] by simp

lemma process_row_untitled:
  "str_or (row_get r ''Title'') (row_get r ''title'') = None
     \<or> str_or (row_get r ''Title'') (row_get r ''title'') = Some [] \<Longrightarrow>
   process_row E tok proj draft repo repo_id secs i r w
     = (Inr (), w\<lparr>printed := printed w @ [Print Stderr (Error_missing_title i)]\<rparr>)"
  by (auto simp: process_row_def print_def)

lemma process_row_titled:
  assumes "str_or (row_get r ''Title'') (row_get r ''title'') = Some title" and "title \<noteq> []"
  shows "process_row E tok proj draft repo repo_id secs i r w =
     (case create_item E tok proj draft repo repo_id title r w of
        (Inl e, w1) \<Rightarrow> (Inl e, w1)
      | (Inr item_id, w2) \<Rightarrow>
          sleep E secs (snd (set_fields E tok (p_id proj) item_id (p_fields proj) r w2)))"
proof (cases "create_item E tok proj draft repo repo_id title r w")
  case (Pair res w2)
  show ?thesis
  proof (cases res)
    case (Inl e)
    with Pair assms show ?thesis by (simp add: process_row_def io_bind_def)
  next
    case (Inr item_id)
    have "fst (set_fields E tok (p_id proj) item_id (p_fields proj) r w2) = Inr ()"
      by (rule set_fields_never_raises)
    with Pair assms Inr show ?thesis
      by (cases "set_fields E tok (p_id proj) item_id (p_fields proj) r w2")
         (simp add: process_row_def io_bind_def)
  qed
qed

lemma process_row_raises:
  "process_row E tok proj draft repo repo_id secs i r w = (Inl e, w1) \<longleftrightarrow>
     (\<exists>title. str_or (row_get r ''Title'') (row_get r ''title'') = Some title \<and> title \<noteq> []
        \<and> (create_item E tok proj draft repo repo_id title r w = (Inl e, w1)
           \<or> (\<exists>item_id w2. create_item E tok proj draft repo repo_id title r w = (Inr item_id, w2)
                 \<and> time_sleep E secs = Some e
                 \<and> w1 = snd (set_fields E tok (p_id proj) item_id (p_fields proj) r w2))))"
proof (cases "str_or (row_get r ''Title'') (row_get r ''title'')")
  case None
  then show ?thesis by (simp add: process_row_def print_def)
next
  case (Some title)
  show ?thesis
  proof (cases "title = []")
    case True
    with Some show ?thesis by (simp add: process_row_def print_def)
  next
    case False
    note t = process_row_titled [OF Some False, of E tok proj draft repo repo_id secs i w]
    show ?thesis
    proof (cases "create_item E tok proj draft repo repo_id title r w")
      case (Pair res w2)
      show ?thesis
      proof (cases res)
        case (Inl e')
        with Pair Some False t show ?thesis by simp
      next
        case (Inr item_id)
        with Pair Some False t show ?thesis
          by (cases "time_sleep E secs") (auto simp: sleep_def)
      qed
    qed
  qed
qed

text \<open>
  C7.  A record without a title is reported and skipped, and the loop goes on with the
  next record.  The loop over the columns never raises: when \<open>update_field\<close> raises for a
  column, the exception is reported and the loop goes on with the remaining columns.  A
  record raises exactly in two cases: the creation of its item raises (the lookup of the
  assignees and of the labels, the creation of the draft or of the issue, the linking to
  the board); or, the item created and the columns gone through, \<^verbatim>\<open>time.sleep\<close> raises
  for the delay of \<^verbatim>\<open>--rate-sleep\<close>.  Then the run ends with that exception: no later
  record is processed.
\<close>

theorem row_failures_isolated:
  "(str_or (row_get r ''Title'') (row_get r ''title'') = None
      \<or> str_or (row_get r ''Title'') (row_get r ''title'') = Some [] \<longrightarrow>
        process_rows E tok proj draft repo repo_id secs i (r # rs) w
          = process_rows E tok proj draft repo repo_id secs (Suc i) rs
              (w\<lparr>printed := printed w @ [Print Stderr (Error_missing_title i)]\<rparr>))
   \<and> fst (set_fields E tok pid iid pf cols w) = Inr ()
   \<and> (\<forall>fld e w1.
          c \<notin> {''Title'', ''title'', ''Body'', ''body'', ''Labels'', ''labels'',
                  ''Assignees'', ''assignees''}
          \<and> str_strip E v \<noteq> [] \<and> pf (JStr c) = Some fld
          \<and> update_field E tok pid iid (f_id fld) (f_dataType fld) (str_strip E v) (options_of fld) w
              = (Inl e, w1) \<longrightarrow>
        set_fields E tok pid iid pf ((c, Some v) # cols) w
          = set_fields E tok pid iid pf cols
              (w1\<lparr>printed := printed w1 @ [Print Stderr (Warn_field_failed c (Some v) e)]\<rparr>))
   \<and> (\<forall>e w1. process_row E tok proj draft repo repo_id secs i r w = (Inl e, w1) \<longleftrightarrow>
          (\<exists>title. str_or (row_get r ''Title'') (row_get r ''title'') = Some title \<and> title \<noteq> []
             \<and> (create_item E tok proj draft repo repo_id title r w = (Inl e, w1)
                \<or> (\<exists>item_id w2.
                      create_item E tok proj draft repo repo_id title r w = (Inr item_id, w2)
                      \<and> time_sleep E secs = Some e
                      \<and> w1 = snd (set_fields E tok (p_id proj) item_id (p_fields proj) r w2)))))
   \<and> (\<forall>e w1. process_row E tok proj draft repo repo_id secs i r w = (Inl e, w1) \<longrightarrow>
          process_rows E tok proj draft repo repo_id secs i (r # rs) w = (Inl e, w1))"
proof (intro conjI allI impI)
  assume "str_or (row_get r ''Title'') (row_get r ''title'') = None
      \<or> str_or (row_get r ''Title'') (row_get r ''title'') = Some []"
  then show "process_rows E tok proj draft repo repo_id secs i (r # rs) w
          = process_rows E tok proj draft repo repo_id secs (Suc i) rs
              (w\<lparr>printed := printed w @ [Print Stderr (Error_missing_title i)]\<rparr>)"
    by (simp add: process_row_untitled io_bind_def)
next
  show "fst (set_fields E tok pid iid pf cols w) = Inr ()"
    by (rule set_fields_never_raises)
next
  fix fld e w1
  assume a: "c \<notin> {''Title'', ''title'', ''Body'', ''body'', ''Labels'', ''labels'',
                  ''Assignees'', ''assignees''}
          \<and> str_strip E v \<noteq> [] \<and> pf (JStr c) = Some fld
          \<and> update_field E tok pid iid (f_id fld) (f_dataType fld) (str_strip E v) (options_of fld) w
              = (Inl e, w1)"
  note a1 = a [THEN conjunct1, folded reserved_set]
  note a2 = a [THEN conjunct2, THEN conjunct1]
  note a3 = a [THEN conjunct2, THEN conjunct2, THEN conjunct1]
  note a4 = a [THEN conjunct2, THEN conjunct2, THEN conjunct2]
  from a4 have "is_Exception e" by (rule update_field_raises_Exception)
  with a1 a2 a3 a4 show "set_fields E tok pid iid pf ((c, Some v) # cols) w
          = set_fields E tok pid iid pf cols
              (w1\<lparr>printed := printed w1 @ [Print Stderr (Warn_field_failed c (Some v) e)]\<rparr>)"
    by (simp add: io_bind_def set_field_def io_except_def print_def)
next
  fix e w1
  show "process_row E tok proj draft repo repo_id secs i r w = (Inl e, w1) \<longleftrightarrow>
          (\<exists>title. str_or (row_get r ''Title'') (row_get r ''title'') = Some title \<and> title \<noteq> []
             \<and> (create_item E tok proj draft repo repo_id title r w = (Inl e, w1)
                \<or> (\<exists>item_id w2.
                      create_item E tok proj draft repo repo_id title r w = (Inr item_id, w2)
                      \<and> time_sleep E secs = Some e
                      \<and> w1 = snd (set_fields E tok (p_id proj) item_id (p_fields proj) r w2))))"
    by (rule process_row_raises)
next
  fix e w1
  assume "process_row E tok proj draft repo repo_id secs i r w = (Inl e, w1)"
  then show "process_rows E tok proj draft repo repo_id secs i (r # rs) w = (Inl e, w1)"
    by (simp add: io_bind_def)
qed

lemma gql_bad_gateway:
  "gql bad_gateway_env tok q vars w
     = (Inl (RuntimeError (GraphQL_HTTP 502 ''Bad Gateway'')),
        w\<lparr>calls := calls w @ [request_of tok q vars]\<rparr>)"
  by (simp add: gql_def gql_decode_def bad_gateway_env_def answer_def)

lemma names_of_empty [simp]: "names_of E [] = []"
  by (simp add: names_of_def)

lemma draft_env_create_item:
  "create_item draft_env ''t'' example_project True [] JNull ''Fix bug'' example_row w0
     = (Inr (JStr ''ITEM_1''),
        \<lparr>calls = [request_of ''t'' M_addProjectV2DraftIssue
              (draft_input (JStr ''PVT_1'') ''Fix bug'' [] [])],
         printed = [Print Stdout (Draft_created (JStr ''ITEM_1''))]\<rparr>)"
  by (simp add: create_item_def get_user_ids_def cell_def str_or_def row_get_def
      example_row_def io_bind_def io_return_def io_of_def create_draft_issue_and_item_def
      draft_env_def gql_data_env example_project_def res_bind_def print_def w0_def)

lemma draft_env_set_fields:
  "set_fields draft_env ''t'' (JStr ''PVT_1'') (JStr ''ITEM_1'') example_fields example_row w
     = (Inr (), w\<lparr>calls := calls w @ [request_of ''t'' M_updateProjectV2ItemFieldValue
          (update_input (JStr ''PVT_1'') (JStr ''ITEM_1'') (JStr ''F1'') (JDict [(''text'', JStr ''hello'')]))]\<rparr>)"
  by (simp add: set_fields_eq_set_all example_eligible set_field_def update_field_def
      text_field_def io_except_def submit_value_def io_bind_def io_return_def draft_env_def
      gql_data_env options_of_def ascii_strip_examples)

lemma clock_sleep_examples:
  "clock_sleep (Finite 1 (- 2)) = None" "clock_sleep (Finite (- 1) 0) = Some ValueError"
  by (simp_all add: clock_sleep_def clock_holds_def)

text \<open>
  Against a service that answers 502: a record without a title; a record whose first
  field fails and whose second is still tried; a run that ends at the first record, whose
  item is not created.  Against a service that creates the draft, with a delay of one
  second below zero: the item is created and its field is set, then \<^verbatim>\<open>time.sleep\<close>
  raises and the second record is not reached.
\<close>

theorem row_failures_isolated_witness:
  "process_rows bad_gateway_env ''t'' example_project True [] JNull (Finite 1 (- 2)) 1 [untitled_row] w0
     = (Inr (), \<lparr>calls = [], printed = [Print Stderr (Error_missing_title 1)]\<rparr>)
   \<and> set_fields bad_gateway_env ''t'' (JStr ''PVT_1'') (JStr ''I'') example_fields failing_row w0
     = (Inr (),
        \<lparr>calls = [request_of ''t'' M_updateProjectV2ItemFieldValue
            (update_input (JStr ''PVT_1'') (JStr ''I'') (JStr ''F1'') (JDict [(''text'', JStr ''hello'')]))],
          printed = [Print Stderr (Warn_field_failed ''Notes'' (Some ''hello'')
                       (RuntimeError (GraphQL_HTTP 502 ''Bad Gateway''))),
                     Print Stderr (Warn_number_invalid ''abc'')]\<rparr>)
   \<and> process_rows bad_gateway_env ''t'' example_project True [] JNull (Finite 1 (- 2)) 1
       [failing_row, untitled_row] w0
     = (Inl (RuntimeError (GraphQL_HTTP 502 ''Bad Gateway'')),
        \<lparr>calls = [request_of ''t'' M_addProjectV2DraftIssue
            (draft_input (JStr ''PVT_1'') ''Fix bug'' [] [])], printed = []\<rparr>)
   \<and> process_rows draft_env ''t'' example_project True [] JNull (Finite (- 1) 0) 1
       [example_row, untitled_row] w0
     = (Inl ValueError,
        \<lparr>calls = [request_of ''t'' M_addProjectV2DraftIssue
                    (draft_input (JStr ''PVT_1'') ''Fix bug'' [] []),
                  request_of ''t'' M_updateProjectV2ItemFieldValue
                    (update_input (JStr ''PVT_1'') (JStr ''ITEM_1'') (JStr ''F1'')
                       (JDict [(''text'', JStr ''hello'')]))],
          printed = [Print Stdout (Draft_created (JStr ''ITEM_1''))]\<rparr>)"
proof -
  let ?d = "Finite 1 (- 2)"
  have t1: "str_or (row_get untitled_row ''Title'') (row_get untitled_row ''title'') = None"
    by (simp add: str_or_def row_get_def untitled_row_def)
  have t2: "str_or (row_get failing_row ''Title'') (row_get failing_row ''title'') = Some ''Fix bug''"
    by (simp add: str_or_def row_get_def failing_row_def)
  have t3: "str_or (row_get example_row ''Title'') (row_get example_row ''title'') = Some ''Fix bug''"
    by (simp add: str_or_def row_get_def example_row_def)
  have u: "update_field bad_gateway_env ''t'' (JStr ''PVT_1'') (JStr ''I'') (JStr ''F1'') (JStr ''TEXT'')
             ''hello'' JNull w0
           = (Inl (RuntimeError (GraphQL_HTTP 502 ''Bad Gateway'')),
              w0\<lparr>calls := calls w0 @ [request_of ''t'' M_updateProjectV2ItemFieldValue
                (update_input (JStr ''PVT_1'') (JStr ''I'') (JStr ''F1'') (JDict [(''text'', JStr ''hello'')]))]\<rparr>)"
    by (simp add: update_field_def submit_value_def io_bind_def gql_bad_gateway)
  have c: "create_item bad_gateway_env ''t'' example_project True [] JNull ''Fix bug'' failing_row w0
           = (Inl (RuntimeError (GraphQL_HTTP 502 ''Bad Gateway'')),
              w0\<lparr>calls := calls w0 @ [request_of ''t'' M_addProjectV2DraftIssue
                 (draft_input (JStr ''PVT_1'') ''Fix bug'' [] [])]\<rparr>)"
    by (simp add: create_item_def get_user_ids_def cell_def str_or_def row_get_def
        failing_row_def io_bind_def io_return_def create_draft_issue_and_item_def gql_bad_gateway
        example_project_def)
  have p: "p_id example_project = JStr ''PVT_1''" "p_fields example_project = example_fields"
    by (simp_all add: example_project_def)
  have sl: "time_sleep draft_env (Finite (- 1) 0) = Some ValueError"
    by (simp add: draft_env_def clock_sleep_examples)
  have st: "str_strip bad_gateway_env = ascii_strip"
    by (simp add: bad_gateway_env_def)
  note T = row_failures_isolated
  from T [of untitled_row bad_gateway_env "''t''" example_project True "[]" JNull ?d 1 "[]" w0] t1
  have 1: "process_rows bad_gateway_env ''t'' example_project True [] JNull ?d 1 [untitled_row] w0
     = (Inr (), \<lparr>calls = [], printed = [Print Stderr (Error_missing_title 1)]\<rparr>)"
    by (simp add: io_return_def w0_def)
  from T [of failing_row bad_gateway_env "''t''" example_project True "[]" JNull ?d 1 "[untitled_row]" w0
            "JStr ''PVT_1''" "JStr ''I''" example_fields "[(''Points'', Some ''abc'')]" "''Notes''" "''hello''"] u
  have 2: "set_fields bad_gateway_env ''t'' (JStr ''PVT_1'') (JStr ''I'') example_fields failing_row w0
     = (Inr (),
        \<lparr>calls = [request_of ''t'' M_updateProjectV2ItemFieldValue
            (update_input (JStr ''PVT_1'') (JStr ''I'') (JStr ''F1'') (JDict [(''text'', JStr ''hello'')]))],
          printed = [Print Stderr (Warn_field_failed ''Notes'' (Some ''hello'')
                       (RuntimeError (GraphQL_HTTP 502 ''Bad Gateway''))),
                     Print Stderr (Warn_number_invalid ''abc'')]\<rparr>)"
    by (simp add: failing_row_def example_fields_def text_field_def reserved_def st
        ascii_strip_examples options_of_def set_field_def io_except_def update_field_def
        bad_gateway_env_def print_def io_bind_def io_return_def w0_def)
  from T [of failing_row bad_gateway_env "''t''" example_project True "[]" JNull ?d 1 "[untitled_row]" w0] t2 c
  have 3: "process_rows bad_gateway_env ''t'' example_project True [] JNull ?d 1 [failing_row, untitled_row] w0
     = (Inl (RuntimeError (GraphQL_HTTP 502 ''Bad Gateway'')),
        \<lparr>calls = [request_of ''t'' M_addProjectV2DraftIssue
            (draft_input (JStr ''PVT_1'') ''Fix bug'' [] [])], printed = []\<rparr>)"
    by (simp add: w0_def)
  from T [of example_row draft_env "''t''" example_project True "[]" JNull "Finite (- 1) 0" 1
            "[untitled_row]" w0] t3 draft_env_create_item sl
  have 4: "process_rows draft_env ''t'' example_project True [] JNull (Finite (- 1) 0) 1
       [example_row, untitled_row] w0
     = (Inl ValueError,
        \<lparr>calls = [request_of ''t'' M_addProjectV2DraftIssue
                    (draft_input (JStr ''PVT_1'') ''Fix bug'' [] []),
                  request_of ''t'' M_updateProjectV2ItemFieldValue
                    (update_input (JStr ''PVT_1'') (JStr ''ITEM_1'') (JStr ''F1'')
                       (JDict [(''text'', JStr ''hello'')]))],
          printed = [Print Stdout (Draft_created (JStr ''ITEM_1''))]\<rparr>)"
    by (simp add: p draft_env_set_fields)
  from 1 2 3 4 show ?thesis by simp
qed

section \<open>Draft mode and labels\<close>

lemma does_user_loop:
  "does (\<lambda>rq. req_query rq = Q_user) (\<lambda>ev. \<not> is_label_warning ev) is_Exception
     (user_loop E tok lgs ids)"
proof (induction lgs arbitrary: ids)
  case Nil
  show ?case by (simp add: does_return)
next
  case (Cons lg lgs)
  have p: "does (\<lambda>rq. req_query rq = Q_user) (\<lambda>ev. \<not> is_label_warning ev) is_Exception
             (print Stderr (Warn_user_missing lg))"
    by (rule does_print) (simp add: is_label_warning_def)
  show ?case
    unfolding user_loop.simps
    by (intro does_bind does_gql does_of res_only_py_get)
       (auto intro!: does_bind does_of res_only_py_index Cons p simp: request_of_def)
qed

lemma does_get_user_ids:
  "does (\<lambda>rq. req_query rq = Q_user) (\<lambda>ev. \<not> is_label_warning ev) is_Exception
     (get_user_ids E tok logins)"
  unfolding get_user_ids_def by (auto intro: does_return does_user_loop)

lemma does_create_draft:
  "does (\<lambda>rq. rq = request_of tok M_addProjectV2DraftIssue (draft_input pid title body ids))
        (\<lambda>ev. \<not> is_label_warning ev) is_Exception
        (create_draft_issue_and_item E tok pid title body ids)"
  unfolding create_draft_issue_and_item_def
  by (intro does_bind does_gql does_of res_only_bind res_only_py_index) auto

lemma does_create_item_draft:
  "does (draft_request tok) (\<lambda>ev. \<not> is_label_warning ev) is_Exception
     (create_item E tok proj True repo repo_id title r)"
proof -
  have u: "does (draft_request tok) (\<lambda>ev. \<not> is_label_warning ev) is_Exception
             (get_user_ids E tok logins)" for logins
    by (rule does_weaken [OF does_get_user_ids]) (auto simp: draft_request_def)
  have d: "does (draft_request tok) (\<lambda>ev. \<not> is_label_warning ev) is_Exception
             (create_draft_issue_and_item E tok pid title body ids)" for pid body ids
    by (rule does_weaken [OF does_create_draft]) (auto simp: draft_request_def)
  have p: "does (draft_request tok) (\<lambda>ev. \<not> is_label_warning ev) is_Exception
             (print Stdout (Draft_created i))" for i
    by (rule does_print) (simp add: is_label_warning_def)
  show ?thesis
    unfolding create_item_def
    by (simp, intro does_bind u d p does_return)
qed

lemma does_set_fields_draft:
  "does (draft_request tok) (\<lambda>ev. \<not> is_label_warning ev) is_Exception
     (set_fields E tok pid iid pf cols)"
  unfolding set_fields_eq_set_all
  by (rule does_weaken [OF does_set_all]) (auto simp: draft_request_def request_of_def)

lemma does_process_row_draft:
  "does (draft_request tok) (\<lambda>ev. \<not> is_label_warning ev) (\<lambda>e. True)
     (process_row E tok proj True repo repo_id secs i r)"
proof -
  have p: "does (draft_request tok) (\<lambda>ev. \<not> is_label_warning ev) (\<lambda>e. True)
             (print Stderr (Error_missing_title i))"
    by (rule does_print) (simp add: is_label_warning_def)
  have s: "does (draft_request tok) (\<lambda>ev. \<not> is_label_warning ev) (\<lambda>e. True) (sleep E secs)"
    by (rule does_sleep) (simp_all add: is_label_warning_def)
  have c: "does (draft_request tok) (\<lambda>ev. \<not> is_label_warning ev) (\<lambda>e. True)
             (create_item E tok proj True repo repo_id title r)" for title
    by (rule does_weaken [OF does_create_item_draft]) simp_all
  have f: "does (draft_request tok) (\<lambda>ev. \<not> is_label_warning ev) (\<lambda>e. True)
             (set_fields E tok pid iid pf cols)" for pid iid pf cols
    by (rule does_weaken [OF does_set_fields_draft]) simp_all
  show ?thesis
    unfolding process_row_def
    by (auto split: option.splits intro!: p does_bind c f s)
qed

lemma map_of_with_labels:
  "k \<noteq> ''Labels'' \<Longrightarrow> k \<noteq> ''labels'' \<Longrightarrow> map_of (with_labels v' r) k = map_of r k"
  by (induction r) (auto simp: with_labels_def)

lemma row_get_with_labels:
  "k \<noteq> ''Labels'' \<Longrightarrow> k \<noteq> ''labels'' \<Longrightarrow> row_get (with_labels v' r) k = row_get r k"
  by (simp add: row_get_def map_of_with_labels)

lemma set_fields_with_labels:
  "set_fields E tok pid iid pf (with_labels v' r) = set_fields E tok pid iid pf r"
proof (induction r)
  case Nil
  show ?case by (simp add: with_labels_def)
next
  case (Cons cv r)
  obtain c v where cv: "cv = (c, v)" by (cases cv)
  have w: "with_labels v' ((c, v) # r)
             = (if c = ''Labels'' \<or> c = ''labels'' then (c, v') else (c, v)) # with_labels v' r"
    by (simp add: with_labels_def)
  have res: "''Labels'' \<in> set reserved" "''labels'' \<in> set reserved"
    by (simp_all add: reserved_def)
  show ?case unfolding cv w using Cons res
    by (cases "c = ''Labels'' \<or> c = ''labels''") (auto split: option.splits)
qed

lemma process_row_with_labels:
  "process_row E tok proj True repo repo_id secs i (with_labels v' r)
     = process_row E tok proj True repo repo_id secs i r"
proof -
  have "create_item E tok proj True repo repo_id title (with_labels v' r)
          = create_item E tok proj True repo repo_id title r" for title
    by (simp add: create_item_def cell_def row_get_with_labels)
  then show ?thesis
    by (simp add: process_row_def row_get_with_labels set_fields_with_labels split: option.splits)
qed

text \<open>
  C10.  In draft mode a record posts no label query and no \<^verbatim>\<open>createIssue\<close>, the input of
  the draft it creates has no \<^verbatim>\<open>labelIds\<close>, and it prints no warning about labels; the
  record does the same whatever its \<^verbatim>\<open>Labels\<close> cells hold.  So a record that posts a label
  query is not in draft mode.
\<close>

theorem draft_ignores_labels:
  "(\<forall>rq \<in> set (drop (length (calls w)) (calls (snd (process_row E tok proj True repo repo_id secs i r w)))).
       req_query rq \<noteq> Q_labels \<and> req_query rq \<noteq> M_createIssue
       \<and> (req_query rq = M_addProjectV2DraftIssue \<longrightarrow>
            res_bind (py_index (req_variables rq) ''input'') (py_in ''labelIds'') = Inr False))
   \<and> (\<forall>ev \<in> set (drop (length (printed w)) (printed (snd (process_row E tok proj True repo repo_id secs i r w)))).
       \<not> is_label_warning ev)
   \<and> process_row E tok proj True repo repo_id secs i (with_labels v' r)
       = process_row E tok proj True repo repo_id secs i r
   \<and> ((\<exists>rq \<in> set (drop (length (calls w)) (calls (snd (process_row E tok proj draft repo repo_id secs i r w)))).
         req_query rq = Q_labels) \<longrightarrow> \<not> draft)"
proof -
  have d: "list_all (draft_request tok)
             (drop (length (calls w)) (calls (snd (process_row E tok proj True repo repo_id secs i r w))))
       \<and> list_all (\<lambda>ev. \<not> is_label_warning ev)
             (drop (length (printed w)) (printed (snd (process_row E tok proj True repo repo_id secs i r w))))
       \<and> res_only (\<lambda>e. True) (fst (process_row E tok proj True repo repo_id secs i r w))"
    by (rule does_new_calls [OF does_process_row_draft])
  have 1: "\<forall>rq \<in> set (drop (length (calls w)) (calls (snd (process_row E tok proj True repo repo_id secs i r w)))).
       req_query rq \<noteq> Q_labels \<and> req_query rq \<noteq> M_createIssue
       \<and> (req_query rq = M_addProjectV2DraftIssue \<longrightarrow>
            res_bind (py_index (req_variables rq) ''input'') (py_in ''labelIds'') = Inr False)"
  proof
    fix rq
    assume "rq \<in> set (drop (length (calls w)) (calls (snd (process_row E tok proj True repo repo_id secs i r w))))"
    with d have "draft_request tok rq" by (simp add: list_all_iff)
    then show "req_query rq \<noteq> Q_labels \<and> req_query rq \<noteq> M_createIssue
       \<and> (req_query rq = M_addProjectV2DraftIssue \<longrightarrow>
            res_bind (py_index (req_variables rq) ''input'') (py_in ''labelIds'') = Inr False)"
      by (auto simp: draft_request_def request_of_def draft_input_def res_bind_def)
  qed
  have 2: "\<forall>ev \<in> set (drop (length (printed w)) (printed (snd (process_row E tok proj True repo repo_id secs i r w)))).
       \<not> is_label_warning ev"
    using d by (simp add: list_all_iff)
  have 3: "(\<exists>rq \<in> set (drop (length (calls w)) (calls (snd (process_row E tok proj draft repo repo_id secs i r w)))).
         req_query rq = Q_labels) \<longrightarrow> \<not> draft"
    using 1 by (cases draft) auto
  from 1 2 3 process_row_with_labels show ?thesis by blast
qed

text \<open>\<open>example_row\<close> has the labels \<^verbatim>\<open>bug, urgent\<close>: in draft mode it posts the draft and one
  field update, and does the same without them.\<close>

theorem draft_ignores_labels_witness:
  "process_row draft_env ''t'' example_project True [] JNull (Finite 1 (- 2)) 1 example_row w0
     = (Inr (),
        \<lparr>calls = [request_of ''t'' M_addProjectV2DraftIssue
                    (draft_input (JStr ''PVT_1'') ''Fix bug'' [] []),
                  request_of ''t'' M_updateProjectV2ItemFieldValue
                    (update_input (JStr ''PVT_1'') (JStr ''ITEM_1'') (JStr ''F1'')
                       (JDict [(''text'', JStr ''hello'')]))],
          printed = [Print Stdout (Draft_created (JStr ''ITEM_1'')), Sleep (Finite 1 (- 2))]\<rparr>)
   \<and> process_row draft_env ''t'' example_project True [] JNull (Finite 1 (- 2)) 1
         (with_labels None example_row) w0
     = process_row draft_env ''t'' example_project True [] JNull (Finite 1 (- 2)) 1 example_row w0"
proof -
  have t: "str_or (row_get example_row ''Title'') (row_get example_row ''title'') = Some ''Fix bug''"
    by (simp add: str_or_def row_get_def example_row_def)
  have p: "p_id example_project = JStr ''PVT_1''" "p_fields example_project = example_fields"
    by (simp_all add: example_project_def)
  have sl: "time_sleep draft_env (Finite 1 (- 2)) = None"
    by (simp add: draft_env_def clock_sleep_examples)
  have "process_row draft_env ''t'' example_project True [] JNull (Finite 1 (- 2)) 1 example_row w0
     = (Inr (),
        \<lparr>calls = [request_of ''t'' M_addProjectV2DraftIssue
                    (draft_input (JStr ''PVT_1'') ''Fix bug'' [] []),
                  request_of ''t'' M_updateProjectV2ItemFieldValue
                    (update_input (JStr ''PVT_1'') (JStr ''ITEM_1'') (JStr ''F1'')
                       (JDict [(''text'', JStr ''hello'')]))],
          printed = [Print Stdout (Draft_created (JStr ''ITEM_1'')), Sleep (Finite 1 (- 2))]\<rparr>)"
    by (simp add: process_row_def t draft_env_create_item draft_env_set_fields p io_bind_def
        sleep_def sl)
  with draft_ignores_labels [of w0 draft_env "''t''" example_project "[]" JNull "Finite 1 (- 2)" 1
         example_row None True]
  show ?thesis by simp
qed

section \<open>Label resolution\<close>

lemma name_is_truthy: "name_is E v x \<Longrightarrow> truthy x"
  by (cases x) (auto simp: name_is_def split: option.splits)

lemma first_named_Inr:
  "first_named E v xs = Inr x \<Longrightarrow>
     (case find (name_is E v) xs of None \<Rightarrow> x = JNull | Some y \<Rightarrow> x = y)"
proof (induction xs)
  case Nil
  then show ?case by simp
next
  case (Cons y ys)
  show ?case
  proof (cases "res_bind (py_index y ''name'') (py_lower E)")
    case (Inl e)
    with Cons.prems show ?thesis by simp
  next
    case (Inr n)
    show ?thesis
    proof (cases "n = str_lower E v")
      case True
      with Inr Cons.prems have "x = y" "name_is E v y" by (simp_all add: name_is_iff)
      then show ?thesis by simp
    next
      case False
      with Inr Cons.prems have "first_named E v ys = Inr x" by simp
      moreover from Inr False have "\<not> name_is E v y" by (simp add: name_is_iff)
      ultimately show ?thesis using Cons.IH by simp
    qed
  qed
qed

lemma label_loop_Cons:
  "label_loop E tok owner name (ln # lns) ids rem w =
     (case candidates E tok owner name ln w of
        Inl e \<Rightarrow> (Inl e, w\<lparr>calls := calls w @ [asked tok owner name ln]\<rparr>)
      | Inr nodes \<Rightarrow>
          (case first_named E ln nodes of
             Inl e \<Rightarrow> (Inl e, w\<lparr>calls := calls w @ [asked tok owner name ln]\<rparr>)
           | Inr found \<Rightarrow>
               if truthy found
               then (case py_index found ''id'' of
                       Inl e \<Rightarrow> (Inl e, w\<lparr>calls := calls w @ [asked tok owner name ln]\<rparr>)
                     | Inr i \<Rightarrow> label_loop E tok owner name lns (ids @ [i]) (rem - {ln})
                                 (w\<lparr>calls := calls w @ [asked tok owner name ln]\<rparr>))
               else label_loop E tok owner name lns ids rem
                      (w\<lparr>calls := calls w @ [asked tok owner name ln]\<rparr>)))"
  using gql_calls [of E tok Q_labels "label_vars owner name ln" w]
  by (cases "gql E tok Q_labels (label_vars owner name ln) w")
     (auto simp: candidates_def asked_def io_bind_def io_of_def res_bind_def split: sum.splits)

lemma matched_ids_Cons:
  "matched_ids E (ln # lns) (nodes # nodess) =
     (case accepted E ln nodes of
        None \<Rightarrow> matched_ids E lns nodess
      | Some x \<Rightarrow> py_index x ''id'' # matched_ids E lns nodess)"
  by (simp add: matched_ids_def List.map_filter_simps split: option.splits)

lemma matched_ids_Nil: "matched_ids E [] nodess = []"
  by (simp add: matched_ids_def List.map_filter_simps)

lemma unmatched_Cons:
  "unmatched E (ln # lns) (nodes # nodess) =
     (if accepted E ln nodes = None then ln # unmatched E lns nodess
      else unmatched E lns nodess)"
  by (simp add: unmatched_def)

lemma unmatched_Nil: "unmatched E [] nodess = []"
  by (simp add: unmatched_def)

lemma unmatched_subset: "set (unmatched E lns nodess) \<subseteq> set lns"
  by (auto simp: unmatched_def dest: set_zip_leftD)

lemma label_loop_Inr:
  "label_loop E tok owner name lns ids rem w = (Inr (ids', rem'), w') \<Longrightarrow> distinct lns \<Longrightarrow>
     calls w' = calls w @ map (asked tok owner name) lns
     \<and> printed w' = printed w
     \<and> (\<exists>nodess. answers E tok owner name w lns = map Inr nodess
          \<and> map Inr ids @ matched_ids E lns nodess = map Inr ids'
          \<and> rem' = rem - (set lns - set (unmatched E lns nodess)))"
proof (induction lns arbitrary: ids rem w)
  case Nil
  then have "ids' = ids" "rem' = rem" "w' = w" by (simp_all add: io_return_def)
  then show ?case by (simp add: matched_ids_Nil unmatched_Nil)
next
  case (Cons ln lns)
  let ?w1 = "w\<lparr>calls := calls w @ [asked tok owner name ln]\<rparr>"
  from Cons.prems(2) have d: "distinct lns" and nin: "ln \<notin> set lns" by simp_all
  from Cons.prems(1) obtain nodes where c: "candidates E tok owner name ln w = Inr nodes"
    by (cases "candidates E tok owner name ln w") (simp_all add: label_loop_Cons del: label_loop.simps)
  with Cons.prems(1) obtain found where f: "first_named E ln nodes = Inr found"
    by (cases "first_named E ln nodes") (simp_all add: label_loop_Cons del: label_loop.simps)
  note fi = first_named_Inr [OF f]
  show ?case
  proof (cases "truthy found")
    case True
    with fi have acc: "accepted E ln nodes = Some found"
      by (cases "find (name_is E ln) nodes") (simp_all add: accepted_def)
    from True c f Cons.prems(1) obtain i where i: "py_index found ''id'' = Inr i"
      by (cases "py_index found ''id''") (simp_all add: label_loop_Cons del: label_loop.simps)
    with True c f Cons.prems(1)
    have "label_loop E tok owner name lns (ids @ [i]) (rem - {ln}) ?w1 = (Inr (ids', rem'), w')"
      by (simp add: label_loop_Cons del: label_loop.simps)
    from Cons.IH [OF this d] obtain nodess where
      calls: "calls w' = calls ?w1 @ map (asked tok owner name) lns"
      and pr: "printed w' = printed ?w1"
      and a: "answers E tok owner name ?w1 lns = map Inr nodess"
      and m: "map Inr (ids @ [i]) @ matched_ids E lns nodess = map Inr ids'"
      and r: "rem' = rem - {ln} - (set lns - set (unmatched E lns nodess))"
      by blast
    from nin unmatched_subset [of E lns nodess] have "ln \<notin> set (unmatched E lns nodess)" by blast
    with r have r': "rem' = rem - (set (ln # lns) - set (unmatched E (ln # lns) (nodes # nodess)))"
      by (auto simp: unmatched_Cons acc)
    have a': "answers E tok owner name w (ln # lns) = map Inr (nodes # nodess)"
      using c a by simp
    have m': "map Inr ids @ matched_ids E (ln # lns) (nodes # nodess) = map Inr ids'"
      using m i by (simp add: matched_ids_Cons acc)
    have "\<exists>nodess. answers E tok owner name w (ln # lns) = map Inr nodess
          \<and> map Inr ids @ matched_ids E (ln # lns) nodess = map Inr ids'
          \<and> rem' = rem - (set (ln # lns) - set (unmatched E (ln # lns) nodess))"
      by (rule exI [where x = "nodes # nodess"]) (intro conjI a' m' r')
    with calls pr show ?thesis by simp
  next
    case False
    with fi name_is_truthy [of E ln found] have acc: "accepted E ln nodes = None"
      by (cases "find (name_is E ln) nodes") (auto simp: accepted_def dest: find_Some_iff [THEN iffD1])
    from False c f Cons.prems(1)
    have "label_loop E tok owner name lns ids rem ?w1 = (Inr (ids', rem'), w')"
      by (simp add: label_loop_Cons del: label_loop.simps)
    from Cons.IH [OF this d] obtain nodess where
      calls: "calls w' = calls ?w1 @ map (asked tok owner name) lns"
      and pr: "printed w' = printed ?w1"
      and a: "answers E tok owner name ?w1 lns = map Inr nodess"
      and m: "map Inr ids @ matched_ids E lns nodess = map Inr ids'"
      and r: "rem' = rem - (set lns - set (unmatched E lns nodess))"
      by blast
    from r nin have r': "rem' = rem - (set (ln # lns) - set (unmatched E (ln # lns) (nodes # nodess)))"
      by (auto simp: unmatched_Cons acc)
    have a': "answers E tok owner name w (ln # lns) = map Inr (nodes # nodess)"
      using c a by simp
    have m': "map Inr ids @ matched_ids E (ln # lns) (nodes # nodess) = map Inr ids'"
      using m by (simp add: matched_ids_Cons acc)
    have "\<exists>nodess. answers E tok owner name w (ln # lns) = map Inr nodess
          \<and> map Inr ids @ matched_ids E (ln # lns) nodess = map Inr ids'
          \<and> rem' = rem - (set (ln # lns) - set (unmatched E (ln # lns) nodess))"
      by (rule exI [where x = "nodes # nodess"]) (intro conjI a' m' r')
    with calls pr show ?thesis by simp
  qed
qed

lemma label_loop_total:
  "list_all well_answered (answers E tok owner name w lns) \<Longrightarrow>
     \<exists>res. fst (label_loop E tok owner name lns ids rem w) = Inr res"
proof (induction lns arbitrary: ids rem w)
  case Nil
  show ?case by (simp add: io_return_def)
next
  case (Cons ln lns)
  let ?w1 = "w\<lparr>calls := calls w @ [asked tok owner name ln]\<rparr>"
  from Cons.prems have wa: "well_answered (candidates E tok owner name ln w)"
    and rest: "list_all well_answered (answers E tok owner name ?w1 lns)" by simp_all
  from wa obtain nodes where c: "candidates E tok owner name ln w = Inr nodes"
    and wf: "list_all named_node nodes"
    by (cases "candidates E tok owner name ln w") (simp_all add: well_answered_def)
  have f: "first_named E ln nodes = Inr (case find (name_is E ln) nodes of None \<Rightarrow> JNull | Some x \<Rightarrow> x)"
    using wf by (rule first_named_find)
  note ih = Cons.IH [OF rest]
  show ?case
  proof (cases "find (name_is E ln) nodes")
    case None
    with c f ih [of ids rem] show ?thesis by (simp add: label_loop_Cons del: label_loop.simps)
  next
    case (Some x)
    then have "x \<in> set nodes" by (auto simp: find_Some_iff)
    with wf have nn: "named_node x" by (auto simp: list_all_iff)
    then obtain kvs n i where "x = JDict kvs" "map_of kvs ''id'' = Some (JStr i)"
      by (auto dest!: named_node_dict)
    then have "py_index x ''id'' = Inr (JStr i)" by simp
    with c f Some named_node_truthy [OF nn] ih [of "ids @ [JStr i]" "rem - {ln}"] show ?thesis
      by (simp add: label_loop_Cons del: label_loop.simps)
  qed
qed

lemma stripped_names_set:
  "set (stripped_names E ns) = {str_strip E n |n. n \<in> set ns \<and> str_strip E n \<noteq> []}"
  by (auto simp: stripped_names_def)

lemma get_label_ids_unfold:
  assumes "label_names \<noteq> []" and "split_owner_name repo_full = Inr (owner, name)"
  shows "get_label_ids E tok repo_full label_names w =
     (case label_loop E tok owner name (set_order E (set (stripped_names E label_names))) []
             (set (stripped_names E label_names)) w of
        (Inl e, w1) \<Rightarrow> (Inl e, w1)
      | (Inr (ids, rem'), w1) \<Rightarrow>
          (Inr ids,
           if rem' \<noteq> {}
           then w1\<lparr>printed := printed w1 @ [Print Stderr (Warn_labels_missing (sorted_list_of_set rem'))]\<rparr>
           else w1))"
  using assms
  by (auto simp: get_label_ids_def io_bind_def io_of_def io_return_def print_def
      split: prod.splits sum.splits)

text \<open>
  C4.  Take a repository path with a \<^verbatim>\<open>/\<close>, and let \<open>lns\<close> be the requested names with the
  white space around them removed by \<^verbatim>\<open>strip()\<close> and the empty ones left out, each once,
  in the order in which Python iterates their set.  When the service answers the queries
  for \<open>lns\<close>, posted in that order, each with a list of candidates that have a name and an
  identifier, the resolution returns, whether the names match or not.  When it returns:
  it has posted the label queries for \<open>lns\<close>, one per name, and nothing else; each query
  was answered with a list of candidates; the identifiers returned are those of the
  candidates accepted, one for each name that has one, in the order of the queries, and
  the candidate accepted for a name is the first of those returned to the query of that
  name whose own name is equal to it once \<^verbatim>\<open>lower()\<close> has folded the case of both; and
  the names without an accepted candidate are what the one warning on the diagnostic
  stream lists, in increasing order (no warning when there is none).
\<close>

theorem label_resolution:
  assumes ok: "set_order_ok E" and sp: "split_owner_name repo_full = Inr (owner, name)"
    and lns: "lns = set_order E {str_strip E n |n. n \<in> set label_names \<and> str_strip E n \<noteq> []}"
  shows "distinct lns
   \<and> set lns = {str_strip E n |n. n \<in> set label_names \<and> str_strip E n \<noteq> []}
   \<and> (list_all well_answered (answers E tok owner name w lns) \<longrightarrow>
           (\<exists>ids. fst (get_label_ids E tok repo_full label_names w) = Inr ids))
   \<and> (\<forall>ids w'. get_label_ids E tok repo_full label_names w = (Inr ids, w') \<longrightarrow>
         calls w' = calls w @ map (asked tok owner name) lns
         \<and> (\<exists>nodess. answers E tok owner name w lns = map Inr nodess
              \<and> matched_ids E lns nodess = map Inr ids
              \<and> printed w' = printed w @
                    (if unmatched E lns nodess = [] then []
                     else [Print Stderr (Warn_labels_missing
                             (sorted_list_of_set (set (unmatched E lns nodess))))])))"
proof -
  let ?S = "set (stripped_names E label_names)"
  have lns': "lns = set_order E ?S" unfolding lns stripped_names_set ..
  from ok have o: "set lns = ?S" "distinct lns"
    unfolding set_order_ok_def lns' by simp_all
  have 0: "distinct lns \<and> set lns = {str_strip E n |n. n \<in> set label_names \<and> str_strip E n \<noteq> []}"
    using o by (simp add: stripped_names_set)
  show ?thesis
  proof (cases "label_names = []")
    case True
    with o have "lns = []" by (simp add: stripped_names_def)
    with True 0 show ?thesis
      by (auto simp: get_label_ids_def io_return_def matched_ids_Nil unmatched_Nil)
  next
    case False
    note unf = get_label_ids_unfold [OF False sp, of E tok w, folded lns']
    have 1: "list_all well_answered (answers E tok owner name w lns) \<longrightarrow>
           (\<exists>ids. fst (get_label_ids E tok repo_full label_names w) = Inr ids)"
    proof
      assume "list_all well_answered (answers E tok owner name w lns)"
      from label_loop_total [OF this, of "[]" ?S]
      obtain res where "fst (label_loop E tok owner name lns [] ?S w) = Inr res" by blast
      then show "\<exists>ids. fst (get_label_ids E tok repo_full label_names w) = Inr ids"
        unfolding unf by (cases "label_loop E tok owner name lns [] ?S w"; cases res) simp
    qed
    have 2: "calls w' = calls w @ map (asked tok owner name) lns
         \<and> (\<exists>nodess. answers E tok owner name w lns = map Inr nodess
              \<and> matched_ids E lns nodess = map Inr ids
              \<and> printed w' = printed w @
                    (if unmatched E lns nodess = [] then []
                     else [Print Stderr (Warn_labels_missing
                             (sorted_list_of_set (set (unmatched E lns nodess))))]))"
      if g: "get_label_ids E tok repo_full label_names w = (Inr ids, w')" for ids w'
    proof -
      from g obtain rem' w1 where
        loop: "label_loop E tok owner name lns [] ?S w = (Inr (ids, rem'), w1)"
        and w': "w' = (if rem' \<noteq> {}
           then w1\<lparr>printed := printed w1 @ [Print Stderr (Warn_labels_missing (sorted_list_of_set rem'))]\<rparr>
           else w1)"
        unfolding unf
        by (cases "label_loop E tok owner name lns [] ?S w") (auto split: sum.splits prod.splits)
      from label_loop_Inr [OF loop o(2)] obtain nodess where
        c: "calls w1 = calls w @ map (asked tok owner name) lns" and p: "printed w1 = printed w"
        and a: "answers E tok owner name w lns = map Inr nodess"
        and m: "map Inr [] @ matched_ids E lns nodess = map Inr ids"
        and r: "rem' = ?S - (set lns - set (unmatched E lns nodess))"
        by blast
      from r o(1) unmatched_subset [of E lns nodess] have r': "rem' = set (unmatched E lns nodess)"
        by blast
      have c': "calls w' = calls w @ map (asked tok owner name) lns" using w' c by simp
      have m': "matched_ids E lns nodess = map Inr ids" using m by simp
      have p': "printed w' = printed w @
                    (if unmatched E lns nodess = [] then []
                     else [Print Stderr (Warn_labels_missing
                             (sorted_list_of_set (set (unmatched E lns nodess))))])"
        using w' p r' by simp
      have "\<exists>nodess. answers E tok owner name w lns = map Inr nodess
              \<and> matched_ids E lns nodess = map Inr ids
              \<and> printed w' = printed w @
                    (if unmatched E lns nodess = [] then []
                     else [Print Stderr (Warn_labels_missing
                             (sorted_list_of_set (set (unmatched E lns nodess))))])"
        by (rule exI [where x = nodess]) (intro conjI a m' p')
      with c' show ?thesis by (rule conjI)
    qed
    from 0 1 2 show ?thesis by blast
  qed
qed

lemma label_env_candidates:
  "candidates label_env tok owner name ln w = Inr label_candidates"
  by (simp add: candidates_def label_env_def gql_data_env label_nodes_def res_bind_def)

lemma late_env_candidates:
  "candidates late_env tok owner name ln w
     = Inr (if calls w = [] then [] else [JDict [(''id'', JStr ''L1''), (''name'', JStr ''bug'')]])"
  by (simp add: candidates_def late_env_def gql_def gql_decode_def answer_def label_nodes_def
      res_bind_def)

lemma label_env_order:
  "sorted_list_of_set {''bug'', ''urgent'', ''THE FIVE BOXING WIZARDS JUMP QUICKLY''}
     = [''THE FIVE BOXING WIZARDS JUMP QUICKLY'', ''bug'', ''urgent'']"
  "sorted_list_of_set {''bug'', ''a''} = [''a'', ''bug'']"
  "sorted_list_of_set {''urgent''} = [''urgent'']"
  "sorted_list_of_set {''a''} = [''a'']"
  by code_simp+

lemma label_env_accepted:
  "accepted label_env ''THE FIVE BOXING WIZARDS JUMP QUICKLY'' label_candidates
     = Some (JDict [(''id'', JStr ''L3''), (''name'', JStr ''the five boxing wizards jump quickly'')])"
  "accepted label_env ''bug'' label_candidates
     = Some (JDict [(''id'', JStr ''L1''), (''name'', JStr ''Bug'')])"
  "accepted label_env ''urgent'' label_candidates = None"
  by (simp_all add: accepted_def name_is_def label_candidates_def label_env_def
      ascii_lower_def ascii_lower_char_def)

lemma map_Inr_injective: "map Inr xs = map Inr ys \<Longrightarrow> xs = ys"
  by (induction xs arbitrary: ys) auto

lemma world_eqI: "calls w = cs \<Longrightarrow> printed w = ps \<Longrightarrow> w = \<lparr>calls = cs, printed = ps\<rparr>"
  by (cases w) simp

text \<open>
  Scenario A, with white space around the names, a blank name and a third name in
  capitals: \<^verbatim>\<open>bug\<close> is matched by \<^verbatim>\<open>Bug\<close>, not by \<^verbatim>\<open>bugfix\<close>; the name in capitals is
  matched by the label in small letters; \<^verbatim>\<open>urgent\<close> is reported.  At \<open>late_env\<close>, which
  knows \<^verbatim>\<open>bug\<close> from the second query on: \<^verbatim>\<open>a\<close> is asked first and is reported, \<^verbatim>\<open>bug\<close>
  is asked second and is matched.
\<close>

theorem label_resolution_witness:
  "get_label_ids label_env ''t'' ''octo/repo''
       [''bug '', '' urgent'', ''  '', ''THE FIVE BOXING WIZARDS JUMP QUICKLY''] w0
     = (Inr [JStr ''L3'', JStr ''L1''],
        \<lparr>calls = [asked ''t'' ''octo'' ''repo'' ''THE FIVE BOXING WIZARDS JUMP QUICKLY'',
                  asked ''t'' ''octo'' ''repo'' ''bug'',
                  asked ''t'' ''octo'' ''repo'' ''urgent''],
          printed = [Print Stderr (Warn_labels_missing [''urgent''])]\<rparr>)
   \<and> get_label_ids late_env ''t'' ''octo/repo'' [''bug'', ''a''] w0
     = (Inr [JStr ''L1''],
        \<lparr>calls = [asked ''t'' ''octo'' ''repo'' ''a'', asked ''t'' ''octo'' ''repo'' ''bug''],
          printed = [Print Stderr (Warn_labels_missing [''a''])]\<rparr>)"
proof -
  have sp: "split_owner_name ''octo/repo'' = Inr (''octo'', ''repo'')"
    by (simp add: split_owner_name_def)
  have sorted_ok: "set_order_ok (env_of p)" for p
    unfolding set_order_ok_def by simp
  have 1: "get_label_ids label_env ''t'' ''octo/repo''
       [''bug '', '' urgent'', ''  '', ''THE FIVE BOXING WIZARDS JUMP QUICKLY''] w0
     = (Inr [JStr ''L3'', JStr ''L1''],
        \<lparr>calls = [asked ''t'' ''octo'' ''repo'' ''THE FIVE BOXING WIZARDS JUMP QUICKLY'',
                  asked ''t'' ''octo'' ''repo'' ''bug'',
                  asked ''t'' ''octo'' ''repo'' ''urgent''],
          printed = [Print Stderr (Warn_labels_missing [''urgent''])]\<rparr>)"
  proof -
    let ?E = label_env
    let ?names = "[''bug '', '' urgent'', ''  '', ''THE FIVE BOXING WIZARDS JUMP QUICKLY'']"
    let ?lns = "[''THE FIVE BOXING WIZARDS JUMP QUICKLY'', ''bug'', ''urgent'']"
    have ok: "set_order_ok ?E" unfolding label_env_def data_env_def by (rule sorted_ok)
    have S: "{str_strip ?E n |n. n \<in> set ?names \<and> str_strip ?E n \<noteq> []}
               = {''bug'', ''urgent'', ''THE FIVE BOXING WIZARDS JUMP QUICKLY''}"
      unfolding stripped_names_set [symmetric]
      by (simp add: stripped_names_def label_env_def ascii_strip_def ascii_space_def)
    have lns: "?lns = set_order ?E {str_strip ?E n |n. n \<in> set ?names \<and> str_strip ?E n \<noteq> []}"
      unfolding S by (simp add: label_env_def label_env_order)
    note T = label_resolution [OF ok sp lns, of "''t''" w0]
    have ans: "answers ?E ''t'' ''octo'' ''repo'' w0 ?lns
                 = map Inr [label_candidates, label_candidates, label_candidates]"
      by (simp add: label_env_candidates)
    have wa: "list_all well_answered (answers ?E ''t'' ''octo'' ''repo'' w0 ?lns)"
      unfolding ans by (simp add: well_answered_def label_candidates_def named_node_def)
    from T [THEN conjunct2, THEN conjunct2, THEN conjunct1, rule_format, OF wa]
    obtain ids where i: "fst (get_label_ids ?E ''t'' ''octo/repo'' ?names w0) = Inr ids" ..
    then obtain w' where g: "get_label_ids ?E ''t'' ''octo/repo'' ?names w0 = (Inr ids, w')"
      by (cases "get_label_ids ?E ''t'' ''octo/repo'' ?names w0") simp
    note U = T [THEN conjunct2, THEN conjunct2, THEN conjunct2, rule_format, OF g]
    note c = U [THEN conjunct1]
    from U [THEN conjunct2] obtain nodess where
      n: "answers ?E ''t'' ''octo'' ''repo'' w0 ?lns = map Inr nodess
          \<and> matched_ids ?E ?lns nodess = map Inr ids
          \<and> printed w' = printed w0 @
                (if unmatched ?E ?lns nodess = [] then []
                 else [Print Stderr (Warn_labels_missing
                         (sorted_list_of_set (set (unmatched ?E ?lns nodess))))])" ..
    have nodess: "nodess = [label_candidates, label_candidates, label_candidates]"
      by (rule map_Inr_injective) (rule n [THEN conjunct1, unfolded ans, symmetric])
    from n [THEN conjunct2, THEN conjunct1, symmetric]
    have "(map Inr ids :: (exn + json) list) = map Inr [JStr ''L3'', JStr ''L1'']"
      unfolding nodess
      by (simp add: matched_ids_Cons matched_ids_Nil label_env_accepted)
    then have ids: "ids = [JStr ''L3'', JStr ''L1'']" by (rule map_Inr_injective)
    from n [THEN conjunct2, THEN conjunct2]
    have p: "printed w' = [Print Stderr (Warn_labels_missing [''urgent''])]"
      unfolding nodess
      by (simp add: unmatched_Cons unmatched_Nil label_env_accepted label_env_order w0_def)
    from c have c': "calls w' = [asked ''t'' ''octo'' ''repo'' ''THE FIVE BOXING WIZARDS JUMP QUICKLY'',
                  asked ''t'' ''octo'' ''repo'' ''bug'',
                  asked ''t'' ''octo'' ''repo'' ''urgent'']"
      by (simp add: w0_def)
    show ?thesis unfolding g ids using world_eqI [OF c' p] by simp
  qed
  have 2: "get_label_ids late_env ''t'' ''octo/repo'' [''bug'', ''a''] w0
     = (Inr [JStr ''L1''],
        \<lparr>calls = [asked ''t'' ''octo'' ''repo'' ''a'', asked ''t'' ''octo'' ''repo'' ''bug''],
          printed = [Print Stderr (Warn_labels_missing [''a''])]\<rparr>)"
  proof -
    let ?E = late_env
    let ?names = "[''bug'', ''a'']"
    let ?lns = "[''a'', ''bug'']"
    let ?b = "JDict [(''id'', JStr ''L1''), (''name'', JStr ''bug'')]"
    have ok: "set_order_ok ?E" unfolding late_env_def by (rule sorted_ok)
    have S: "{str_strip ?E n |n. n \<in> set ?names \<and> str_strip ?E n \<noteq> []} = {''bug'', ''a''}"
      unfolding stripped_names_set [symmetric]
      by (simp add: stripped_names_def late_env_def ascii_strip_def ascii_space_def)
    have lns: "?lns = set_order ?E {str_strip ?E n |n. n \<in> set ?names \<and> str_strip ?E n \<noteq> []}"
      unfolding S by (simp add: late_env_def label_env_order)
    note T = label_resolution [OF ok sp lns, of "''t''" w0]
    have ans: "answers ?E ''t'' ''octo'' ''repo'' w0 ?lns = map Inr [[], [?b]]"
      by (simp add: late_env_candidates w0_def)
    have wa: "list_all well_answered (answers ?E ''t'' ''octo'' ''repo'' w0 ?lns)"
      unfolding ans by (simp add: well_answered_def named_node_def)
    have acc: "accepted ?E ''a'' [] = None" "accepted ?E ''bug'' [?b] = Some ?b"
      by (simp_all add: accepted_def name_is_def late_env_def ascii_lower_def ascii_lower_char_def)
    from T [THEN conjunct2, THEN conjunct2, THEN conjunct1, rule_format, OF wa]
    obtain ids where i: "fst (get_label_ids ?E ''t'' ''octo/repo'' ?names w0) = Inr ids" ..
    then obtain w' where g: "get_label_ids ?E ''t'' ''octo/repo'' ?names w0 = (Inr ids, w')"
      by (cases "get_label_ids ?E ''t'' ''octo/repo'' ?names w0") simp
    note U = T [THEN conjunct2, THEN conjunct2, THEN conjunct2, rule_format, OF g]
    note c = U [THEN conjunct1]
    from U [THEN conjunct2] obtain nodess where
      n: "answers ?E ''t'' ''octo'' ''repo'' w0 ?lns = map Inr nodess
          \<and> matched_ids ?E ?lns nodess = map Inr ids
          \<and> printed w' = printed w0 @
                (if unmatched ?E ?lns nodess = [] then []
                 else [Print Stderr (Warn_labels_missing
                         (sorted_list_of_set (set (unmatched ?E ?lns nodess))))])" ..
    have nodess: "nodess = [[], [?b]]"
      by (rule map_Inr_injective) (rule n [THEN conjunct1, unfolded ans, symmetric])
    from n [THEN conjunct2, THEN conjunct1, symmetric]
    have "(map Inr ids :: (exn + json) list) = map Inr [JStr ''L1'']"
      unfolding nodess
      by (simp add: matched_ids_Cons matched_ids_Nil acc)
    then have ids: "ids = [JStr ''L1'']" by (rule map_Inr_injective)
    from n [THEN conjunct2, THEN conjunct2]
    have p: "printed w' = [Print Stderr (Warn_labels_missing [''a''])]"
      unfolding nodess
      by (simp add: unmatched_Cons unmatched_Nil acc label_env_order w0_def)
    from c have c': "calls w' = [asked ''t'' ''octo'' ''repo'' ''a'', asked ''t'' ''octo'' ''repo'' ''bug'']"
      by (simp add: w0_def)
    show ?thesis unfolding g ids using world_eqI [OF c' p] by simp
  qed
  from 1 2 show ?thesis ..
qed

end
